theory Spec2Isabelle
  imports Main "HOL-Library.Multiset"
begin

section \<open>Data model\<close>

text \<open>
  The OIDC authorize endpoint of \<^verbatim>\<open>internal/oidc/oauth2_auth.go\<close>. Errors are
  carried as their message (\<^verbatim>\<open>err.Error()\<close>); the two level types are Go integers
  that the handler only passes on to its collaborators.
\<close>

type_synonym err = string

text \<open>\<^verbatim>\<open>session.OIDCWorkflowSession\<close>, with the fields the handler assigns and reads.\<close>

record OIDCWorkflowSession =
  ClientID :: string
  RequestedScopes :: "string list"
  GrantedScopes :: "string list"
  AuthURI :: string
  TargetURI :: string
  RequiredAuthorizationLevel :: int

text \<open>\<^verbatim>\<open>session.UserSession\<close>; the workflow is a pointer, \<open>None\<close> is \<^verbatim>\<open>nil\<close>.\<close>

record UserSession =
  Username :: string
  Groups :: "string list"
  AuthenticationLevel :: int
  OIDCWorkflowSession :: "OIDCWorkflowSession option"

text \<open>
  The request object of the protocol engine (\<^verbatim>\<open>fosite.AuthorizeRequester\<close>), one field
  for each getter the handler calls; \<open>GetClientID\<close> stands for \<^verbatim>\<open>GetClient().GetID()\<close>.
\<close>

record AuthorizeRequest =
  GetID :: string
  GetClientID :: string
  GetRedirectURI :: string
  GetRequestedScopes :: "string list"
  GetRequestedAudience :: "string list"
  GetGrantedScopes :: "string list"
  GetGrantedAudience :: "string list"

text \<open>\<^verbatim>\<open>schema.OpenIDConnectClientConfiguration\<close>: the handler reads the \<open>ID\<close> only.\<close>

record OpenIDConnectClientConfiguration =
  ID :: string
  Description :: string

text \<open>\<^verbatim>\<open>authorization.Subject\<close> (user name, groups, IP) and the object built by
  \<^verbatim>\<open>authorization.NewObjectRaw\<close> (target URL, method).\<close>

datatype Subject = Subject string "string list" string

datatype Object = NewObjectRaw string string

type_synonym OAuthSession = string

type_synonym Response = string

text \<open>
  Everything the handler obtains from its collaborators during one invocation:
  the protocol engine (\<open>NewAuthorizeRequest\<close> gives the pair the Go call returns,
  \<open>NewAuthorizeResponse\<close>), the client registry, the policy engine
  (\<open>GetRequiredLevel\<close>, \<open>IsAuthLevelSufficient\<close>), the request context
  (\<open>RemoteIP\<close>, \<open>GetOriginalURL\<close>, \<open>ForwardedProtoHost\<close>), the session store
  (\<open>SaveSessionError\<close>: the error, if any, that saving a given session gives) and the
  package's \<open>newSession\<close>, which receives the context and hence the stored session.
\<close>

record Env =
  NewAuthorizeRequest :: "AuthorizeRequest \<times> err option"
  Clients :: "OpenIDConnectClientConfiguration list"
  GetRequiredLevel :: "Subject \<Rightarrow> Object \<Rightarrow> int"
  IsAuthLevelSufficient :: "int \<Rightarrow> int \<Rightarrow> bool"
  RemoteIP :: string
  GetOriginalURL :: "err + string"
  ForwardedProtoHost :: "err + string"
  SaveSessionError :: "UserSession \<Rightarrow> err option"
  newSession :: "UserSession \<Rightarrow> string list \<Rightarrow> string list \<Rightarrow> OAuthSession"
  NewAuthorizeResponse :: "AuthorizeRequest \<Rightarrow> OAuthSession \<Rightarrow> err + Response"

text \<open>The calls of the handler that reach outside it, in the order they are made
  (logging left out).\<close>

datatype Event =
    EvGetSession
  | EvGetRequiredLevel Subject Object
  | EvGetOriginalURL
  | EvSaveSession UserSession "err option"
  | EvForwardedProtoHost
  | EvHttpError string nat
  | EvRedirect string nat
  | EvNewAuthorizeResponse AuthorizeRequest OAuthSession
  | EvWriteAuthorizeError AuthorizeRequest err
  | EvWriteAuthorizeResponse AuthorizeRequest Response

text \<open>What one invocation leaves behind: the session held by the session store, the
  calls made, and the request object.\<close>

record Run =
  session :: UserSession
  events :: "Event list"
  request :: AuthorizeRequest

section \<open>Operations\<close>

text \<open>\<^verbatim>\<open>getOIDCClientConfig\<close>: the first client of the configuration with the given ID.\<close>

fun getOIDCClientConfig ::
  "string \<Rightarrow> OpenIDConnectClientConfiguration list \<Rightarrow> OpenIDConnectClientConfiguration option" where
  "getOIDCClientConfig clientID [] = None"
| "getOIDCClientConfig clientID (c # cs) =
     (if clientID = ID c then Some c else getOIDCClientConfig clientID cs)"

text \<open>
  Modelled from the spec: \<^verbatim>\<open>utils.IsStringSlicesDifferent\<close> is not among the sources. The
  spec describes it as a symmetric-difference comparison of the two slices: they differ
  when some element of one is not an element of the other.
\<close>

definition IsStringSlicesDifferent :: "string list \<Rightarrow> string list \<Rightarrow> bool" where
  "IsStringSlicesDifferent a b =
     (filter (\<lambda>s. s \<notin> set b) a @ filter (\<lambda>s. s \<notin> set a) b \<noteq> [])"

text \<open>
  Modelled from the spec: \<^verbatim>\<open>GrantScope\<close> and \<^verbatim>\<open>GrantAudience\<close> belong to the protocol
  engine's request object; the spec says they mark a scope or an audience granted on it.
\<close>

definition GrantScope :: "AuthorizeRequest \<Rightarrow> string \<Rightarrow> AuthorizeRequest" where
  "GrantScope ar scope =
     (if scope \<in> set (GetGrantedScopes ar) then ar
      else ar\<lparr>GetGrantedScopes := GetGrantedScopes ar @ [scope]\<rparr>)"

definition GrantAudience :: "AuthorizeRequest \<Rightarrow> string \<Rightarrow> AuthorizeRequest" where
  "GrantAudience ar a =
     (if a \<in> set (GetGrantedAudience ar) then ar
      else ar\<lparr>GetGrantedAudience := GetGrantedAudience ar @ [a]\<rparr>)"

text \<open>The local \<^verbatim>\<open>isConsentMissing\<close> of the handler (lines 74 to 75).\<close>

definition isConsentMissing :: "AuthorizeRequest \<Rightarrow> UserSession \<Rightarrow> bool" where
  "isConsentMissing ar userSession =
     (length (GetRequestedScopes ar) > 0 \<and>
      (case OIDCWorkflowSession userSession of
         None \<Rightarrow> True
       | Some w \<Rightarrow> IsStringSlicesDifferent (GetRequestedScopes ar) (GrantedScopes w)))"

text \<open>The subject and object handed to the policy engine (lines 67 to 71).\<close>

definition policySubject :: "Env \<Rightarrow> UserSession \<Rightarrow> Subject" where
  "policySubject env userSession =
     Subject (Username userSession) (Groups userSession) (RemoteIP env)"

definition policyObject :: "AuthorizeRequest \<Rightarrow> Object" where
  "policyObject ar = NewObjectRaw (GetRedirectURI ar) ''GET''"

text \<open>The local \<^verbatim>\<open>isAuthInsufficient\<close> of the handler (line 73).\<close>

definition isAuthInsufficient :: "Env \<Rightarrow> AuthorizeRequest \<Rightarrow> UserSession \<Rightarrow> bool" where
  "isAuthInsufficient env ar userSession =
     (\<not> IsAuthLevelSufficient env (AuthenticationLevel userSession)
          (GetRequiredLevel env (policySubject env userSession) (policyObject ar)))"

text \<open>\<^verbatim>\<open>new(session.OIDCWorkflowSession)\<close>: every field at its zero value.\<close>

definition newOIDCWorkflowSession :: OIDCWorkflowSession where
  "newOIDCWorkflowSession =
     \<lparr>ClientID = [], RequestedScopes = [], GrantedScopes = [], AuthURI = [],
      TargetURI = [], RequiredAuthorizationLevel = 0\<rparr>"

text \<open>The workflow the handler installs (lines 87 to 92).\<close>

definition installedWorkflow ::
  "string \<Rightarrow> AuthorizeRequest \<Rightarrow> string \<Rightarrow> int \<Rightarrow> OIDCWorkflowSession" where
  "installedWorkflow clientID ar forwardedURI requiredAuthorizationLevel =
     newOIDCWorkflowSession
       \<lparr>ClientID := clientID,
        RequestedScopes := GetRequestedScopes ar,
        AuthURI := forwardedURI,
        TargetURI := GetRedirectURI ar,
        RequiredAuthorizationLevel := requiredAuthorizationLevel\<rparr>"

text \<open>
  The pending-workflow branch (lines 77 to 116). \<open>store\<close> is the session the store
  holds, \<open>userSession\<close> the copy read at line 64, \<open>evs\<close> the calls made so far.
  A failed save leaves the store as it was.
\<close>

definition pendingWorkflow ::
  "Env \<Rightarrow> AuthorizeRequest \<Rightarrow> string \<Rightarrow> UserSession \<Rightarrow> int \<Rightarrow> bool \<Rightarrow> Event list \<Rightarrow> Run" where
  "pendingWorkflow env ar clientID userSession requiredAuthorizationLevel consentMissing evs =
     (case GetOriginalURL env of
        Inl e \<Rightarrow>
          \<lparr>session = userSession,
           events = evs @ [EvGetOriginalURL, EvHttpError e 500],
           request = ar\<rparr>
      | Inr forwardedURI \<Rightarrow>
          (let userSession' = userSession
                 \<lparr>OIDCWorkflowSession :=
                    Some (installedWorkflow clientID ar forwardedURI requiredAuthorizationLevel)\<rparr>
           in case SaveSessionError env userSession' of
                Some e \<Rightarrow>
                  \<lparr>session = userSession,
                   events = evs @ [EvGetOriginalURL, EvSaveSession userSession' (Some e),
                                   EvHttpError e 500],
                   request = ar\<rparr>
              | None \<Rightarrow>
                  (case ForwardedProtoHost env of
                     Inl e \<Rightarrow>
                       \<lparr>session = userSession',
                        events = evs @ [EvGetOriginalURL, EvSaveSession userSession' None,
                                        EvForwardedProtoHost, EvHttpError e 500],
                        request = ar\<rparr>
                   | Inr uri \<Rightarrow>
                       \<lparr>session = userSession',
                        events = evs @ [EvGetOriginalURL, EvSaveSession userSession' None,
                                        EvForwardedProtoHost,
                                        EvRedirect
                                          (if consentMissing then uri @ ''/consent''
                                           else uri @ ''?workflow=openid'') 302],
                        request = ar\<rparr>)))"

text \<open>Granting, clearing the workflow, saving and building the response
  (lines 119 to 163).\<close>

definition finalize :: "Env \<Rightarrow> AuthorizeRequest \<Rightarrow> UserSession \<Rightarrow> Event list \<Rightarrow> Run" where
  "finalize env ar store evs =
     (let scopes = GetRequestedScopes ar;
          ar1 = foldl GrantScope ar scopes;
          audience = GetRequestedAudience ar1;
          ar' = foldl GrantAudience ar1 audience;
          userSession = store\<lparr>OIDCWorkflowSession := None\<rparr>
      in case SaveSessionError env userSession of
           Some e \<Rightarrow>
             \<lparr>session = store,
              events = evs @ [EvGetSession, EvSaveSession userSession (Some e),
                              EvHttpError e 500],
              request = ar'\<rparr>
         | None \<Rightarrow>
             (let oauthSession = newSession env userSession scopes audience
              in case NewAuthorizeResponse env ar' oauthSession of
                   Inl e \<Rightarrow>
                     \<lparr>session = userSession,
                      events = evs @ [EvGetSession, EvSaveSession userSession None,
                                      EvNewAuthorizeResponse ar' oauthSession,
                                      EvWriteAuthorizeError ar' e],
                      request = ar'\<rparr>
                 | Inr response \<Rightarrow>
                     \<lparr>session = userSession,
                      events = evs @ [EvGetSession, EvSaveSession userSession None,
                                      EvNewAuthorizeResponse ar' oauthSession,
                                      EvWriteAuthorizeResponse ar' response],
                      request = ar'\<rparr>))"

text \<open>\<^verbatim>\<open>authorizeHandler\<close>; \<open>store\<close> is the session the store holds on entry.\<close>

definition authorizeHandler :: "Env \<Rightarrow> bool \<Rightarrow> UserSession \<Rightarrow> Run" where
  "authorizeHandler env post store =
     (case NewAuthorizeRequest env of
        (ar, Some e) \<Rightarrow>
          \<lparr>session = store, events = [EvWriteAuthorizeError ar e], request = ar\<rparr>
      | (ar, None) \<Rightarrow>
          (let clientID = GetClientID ar
           in case getOIDCClientConfig clientID (Clients env) of
                None \<Rightarrow>
                  \<lparr>session = store,
                   events = [EvWriteAuthorizeError ar
                     (''Unable to find related client configuration with name '' @ GetID ar)],
                   request = ar\<rparr>
              | Some clientConfig \<Rightarrow>
                  (if \<not> post then
                     (let userSession = store;
                          requiredAuthorizationLevel =
                            GetRequiredLevel env (policySubject env userSession) (policyObject ar);
                          authInsufficient = isAuthInsufficient env ar userSession;
                          consentMissing = isConsentMissing ar userSession;
                          evs = [EvGetSession,
                                 EvGetRequiredLevel (policySubject env userSession)
                                   (policyObject ar)]
                      in if authInsufficient \<or> consentMissing
                         then pendingWorkflow env ar clientID userSession
                                requiredAuthorizationLevel consentMissing evs
                         else finalize env ar store evs)
                   else finalize env ar store [])))"



section \<open>Reading a run\<close>

text \<open>Selectors on the calls of a run.\<close>

fun isGetSession :: "Event \<Rightarrow> bool" where
  "isGetSession EvGetSession = True"
| "isGetSession _ = False"


fun isSaveSession :: "Event \<Rightarrow> bool" where
  "isSaveSession (EvSaveSession _ _) = True"
| "isSaveSession _ = False"

fun isRedirect :: "Event \<Rightarrow> bool" where
  "isRedirect (EvRedirect _ _) = True"
| "isRedirect _ = False"

fun isNewAuthorizeResponse :: "Event \<Rightarrow> bool" where
  "isNewAuthorizeResponse (EvNewAuthorizeResponse _ _) = True"
| "isNewAuthorizeResponse _ = False"

text \<open>The request object after the scope and audience loops (lines 119 to 130).\<close>

definition grantRequested :: "AuthorizeRequest \<Rightarrow> AuthorizeRequest" where
  "grantRequested ar =
     (let ar1 = foldl GrantScope ar (GetRequestedScopes ar)
      in foldl GrantAudience ar1 (GetRequestedAudience ar1))"

text \<open>The sessions handed to the session store, successfully or not.\<close>

fun savedSessions :: "Event list \<Rightarrow> UserSession list" where
  "savedSessions [] = []"
| "savedSessions (EvSaveSession s _ # evs) = s # savedSessions evs"
| "savedSessions (_ # evs) = savedSessions evs"

section \<open>Concrete requests, sessions and collaborators\<close>

definition exampleClient :: OpenIDConnectClientConfiguration where
  "exampleClient = \<lparr>ID = ''app'', Description = ''An application''\<rparr>"

definition exampleRequest :: AuthorizeRequest where
  "exampleRequest =
     \<lparr>GetID = ''req-1'', GetClientID = ''app'',
      GetRedirectURI = ''https://app.example.com/callback'',
      GetRequestedScopes = [''openid'', ''email''],
      GetRequestedAudience = [''https://app.example.com''],
      GetGrantedScopes = [], GetGrantedAudience = []\<rparr>"

definition noScopeRequest :: AuthorizeRequest where
  "noScopeRequest = exampleRequest\<lparr>GetRequestedScopes := []\<rparr>"

definition unknownClientRequest :: AuthorizeRequest where
  "unknownClientRequest = exampleRequest\<lparr>GetClientID := ''nobody''\<rparr>"

definition freshSession :: UserSession where
  "freshSession =
     \<lparr>Username = ''john'', Groups = [''dev''], AuthenticationLevel = 2,
      OIDCWorkflowSession = None\<rparr>"

definition grantedWorkflow :: OIDCWorkflowSession where
  "grantedWorkflow =
     \<lparr>ClientID = ''app'', RequestedScopes = [''openid'', ''email''],
      GrantedScopes = [''email'', ''openid''], AuthURI = ''https://auth.example.com/api/oidc/authorize'',
      TargetURI = ''https://app.example.com/callback'', RequiredAuthorizationLevel = 2\<rparr>"

definition grantedSession :: UserSession where
  "grantedSession = freshSession\<lparr>OIDCWorkflowSession := Some grantedWorkflow\<rparr>"

definition otherClientSession :: UserSession where
  "otherClientSession =
     freshSession\<lparr>OIDCWorkflowSession := Some (grantedWorkflow\<lparr>ClientID := ''other''\<rparr>)\<rparr>"

definition exampleEnv :: Env where
  "exampleEnv =
     \<lparr>NewAuthorizeRequest = (exampleRequest, None),
      Clients = [exampleClient],
      GetRequiredLevel = (\<lambda>subject object. 2),
      IsAuthLevelSufficient = (\<lambda>authenticationLevel authorizationLevel.
         authorizationLevel \<le> authenticationLevel),
      RemoteIP = ''192.168.0.7'',
      GetOriginalURL = Inr ''https://auth.example.com/api/oidc/authorize'',
      ForwardedProtoHost = Inr ''https://auth.example.com'',
      SaveSessionError = (\<lambda>userSession. None),
      newSession = (\<lambda>userSession scopes audience. Username userSession),
      NewAuthorizeResponse = (\<lambda>ar oauthSession. Inr ''code'')\<rparr>"


definition unknownClientEnv :: Env where
  "unknownClientEnv = exampleEnv\<lparr>NewAuthorizeRequest := (unknownClientRequest, None)\<rparr>"

definition noOriginalURLEnv :: Env where
  "noOriginalURLEnv = exampleEnv\<lparr>GetOriginalURL := Inl ''Missing header X-Original-URL''\<rparr>"

definition noProtoHostEnv :: Env where
  "noProtoHostEnv = exampleEnv\<lparr>ForwardedProtoHost := Inl ''Missing header X-Forwarded-Host''\<rparr>"

definition saveFailsEnv :: Env where
  "saveFailsEnv = exampleEnv\<lparr>SaveSessionError := (\<lambda>userSession. Some ''session store down'')\<rparr>"

definition responseFailsEnv :: Env where
  "responseFailsEnv = exampleEnv\<lparr>NewAuthorizeResponse := (\<lambda>ar oauthSession. Inl ''invalid_request'')\<rparr>"

definition reorderedRequest :: AuthorizeRequest where
  "reorderedRequest = exampleRequest\<lparr>GetRequestedScopes := [''email'', ''openid'']\<rparr>"

text \<open>The calls of lines 64 to 71, and the session the pending branch hands to the
  store (lines 87 to 94).\<close>

definition policyCalls :: "Env \<Rightarrow> AuthorizeRequest \<Rightarrow> UserSession \<Rightarrow> Event list" where
  "policyCalls env ar store =
     [EvGetSession, EvGetRequiredLevel (policySubject env store) (policyObject ar)]"

definition pendingSession :: "Env \<Rightarrow> AuthorizeRequest \<Rightarrow> UserSession \<Rightarrow> string \<Rightarrow> UserSession" where
  "pendingSession env ar store forwardedURI =
     store\<lparr>OIDCWorkflowSession :=
       Some (installedWorkflow (GetClientID ar) ar forwardedURI
         (GetRequiredLevel env (policySubject env store) (policyObject ar)))\<rparr>"

definition anonymousSession :: UserSession where
  "anonymousSession =
     \<lparr>Username = [], Groups = [], AuthenticationLevel = 0, OIDCWorkflowSession = None\<rparr>"

definition examplePendingWorkflow :: OIDCWorkflowSession where
  "examplePendingWorkflow =
     \<lparr>ClientID = ''app'', RequestedScopes = [''openid'', ''email''], GrantedScopes = [],
      AuthURI = ''https://auth.example.com/api/oidc/authorize'',
      TargetURI = ''https://app.example.com/callback'', RequiredAuthorizationLevel = 2\<rparr>"

section \<open>Properties\<close>

lemma getOIDCClientConfig_None:
  "getOIDCClientConfig clientID cs = None \<longleftrightarrow> (\<forall>c \<in> set cs. ID c \<noteq> clientID)"
  by (induction cs) auto

lemma getOIDCClientConfig_Some:
  "getOIDCClientConfig clientID cs = Some c \<Longrightarrow> c \<in> set cs \<and> ID c = clientID"
  by (induction cs) (auto split: if_splits)

lemma IsStringSlicesDifferent_set:
  "IsStringSlicesDifferent a b \<longleftrightarrow> set a \<noteq> set b"
proof -
  have "IsStringSlicesDifferent a b \<longleftrightarrow>
          (\<exists>s \<in> set a. s \<notin> set b) \<or> (\<exists>s \<in> set b. s \<notin> set a)"
    by (simp add: IsStringSlicesDifferent_def filter_empty_conv)
  also have "\<dots> \<longleftrightarrow> set a \<noteq> set b"
    by blast
  finally show ?thesis .
qed

text \<open>
  Claim C7. The lookup is a function of the client ID and the registry alone: it returns
  the absent result exactly when no client carries the ID, and otherwise a client of the
  registry with that ID. When the client ID of the parsed request matches no client, the
  handler, on either entry point, makes a single call, the protocol engine's error writer
  with the client-not-found error: the session is neither read nor saved and the store
  keeps the session it had.
\<close>

theorem unknown_client_writes_error:
  "(getOIDCClientConfig clientID cs = None \<longleftrightarrow> clientID \<notin> ID ` set cs) \<and>
   (getOIDCClientConfig clientID cs = Some c \<longrightarrow> c \<in> set cs \<and> ID c = clientID) \<and>
   (NewAuthorizeRequest env = (ar, None) \<and> GetClientID ar \<notin> ID ` set (Clients env) \<longrightarrow>
      getOIDCClientConfig (GetClientID ar) (Clients env) = None \<and>
      events (authorizeHandler env post store) =
        [EvWriteAuthorizeError ar
           (''Unable to find related client configuration with name '' @ GetID ar)] \<and>
      filter isGetSession (events (authorizeHandler env post store)) = [] \<and>
      savedSessions (events (authorizeHandler env post store)) = [] \<and>
      session (authorizeHandler env post store) = store \<and>
      request (authorizeHandler env post store) = ar)"
proof (intro conjI)
  show "getOIDCClientConfig clientID cs = None \<longleftrightarrow> clientID \<notin> ID ` set cs"
    by (force simp add: getOIDCClientConfig_None)
  show "getOIDCClientConfig clientID cs = Some c \<longrightarrow> c \<in> set cs \<and> ID c = clientID"
    using getOIDCClientConfig_Some [of clientID cs c] by blast
  show "NewAuthorizeRequest env = (ar, None) \<and> GetClientID ar \<notin> ID ` set (Clients env) \<longrightarrow>
      getOIDCClientConfig (GetClientID ar) (Clients env) = None \<and>
      events (authorizeHandler env post store) =
        [EvWriteAuthorizeError ar
           (''Unable to find related client configuration with name '' @ GetID ar)] \<and>
      filter isGetSession (events (authorizeHandler env post store)) = [] \<and>
      savedSessions (events (authorizeHandler env post store)) = [] \<and>
      session (authorizeHandler env post store) = store \<and>
      request (authorizeHandler env post store) = ar"
  proof
    assume h: "NewAuthorizeRequest env = (ar, None) \<and>
      GetClientID ar \<notin> ID ` set (Clients env)"
    then have none: "getOIDCClientConfig (GetClientID ar) (Clients env) = None"
      by (force simp add: getOIDCClientConfig_None)
    from h have parse: "NewAuthorizeRequest env = (ar, None)"
      by simp
    show "getOIDCClientConfig (GetClientID ar) (Clients env) = None \<and>
      events (authorizeHandler env post store) =
        [EvWriteAuthorizeError ar
           (''Unable to find related client configuration with name '' @ GetID ar)] \<and>
      filter isGetSession (events (authorizeHandler env post store)) = [] \<and>
      savedSessions (events (authorizeHandler env post store)) = [] \<and>
      session (authorizeHandler env post store) = store \<and>
      request (authorizeHandler env post store) = ar"
      by (simp add: authorizeHandler_def Let_def none parse)
  qed
qed

theorem unknown_client_writes_error_witness:
  "NewAuthorizeRequest unknownClientEnv = (unknownClientRequest, None) \<and>
   GetClientID unknownClientRequest \<notin> ID ` set (Clients unknownClientEnv) \<and>
   getOIDCClientConfig ''app'' [exampleClient] = Some exampleClient \<and>
   exampleClient \<in> set [exampleClient] \<and> ID exampleClient = ''app'' \<and>
   events (authorizeHandler unknownClientEnv False grantedSession) =
       [EvWriteAuthorizeError unknownClientRequest
          (''Unable to find related client configuration with name '' @ GetID unknownClientRequest)] \<and>
   savedSessions (events (authorizeHandler unknownClientEnv False grantedSession)) = [] \<and>
   session (authorizeHandler unknownClientEnv False grantedSession) = grantedSession"
proof -
  have p: "NewAuthorizeRequest unknownClientEnv = (unknownClientRequest, None)"
    by (simp add: unknownClientEnv_def)
  have n: "GetClientID unknownClientRequest \<notin> ID ` set (Clients unknownClientEnv)"
    by (simp add: unknownClientEnv_def unknownClientRequest_def exampleEnv_def exampleClient_def)
  have f: "getOIDCClientConfig ''app'' [exampleClient] = Some exampleClient"
    by (simp add: exampleClient_def)
  from unknown_client_writes_error [where env = unknownClientEnv and ar = unknownClientRequest
      and post = False and store = grantedSession and clientID = "''app''"
      and cs = "[exampleClient]" and c = exampleClient] p n f
  show ?thesis by blast
qed

text \<open>
  Claim C3. With no requested scope, consent is never missing. Otherwise consent is
  missing exactly when the session has no workflow or the requested scopes and the
  workflow's granted scopes differ as sets; reordering either list does not change the
  decision.
\<close>

theorem consent_missing_iff:
  "(GetRequestedScopes ar = [] \<longrightarrow> \<not> isConsentMissing ar userSession) \<and>
   (GetRequestedScopes ar \<noteq> [] \<longrightarrow>
      (isConsentMissing ar userSession \<longleftrightarrow>
         (case OIDCWorkflowSession userSession of
            None \<Rightarrow> True
          | Some w \<Rightarrow> set (GetRequestedScopes ar) \<noteq> set (GrantedScopes w)))) \<and>
   (mset (GetRequestedScopes ar') = mset (GetRequestedScopes ar) \<and>
    map_option (\<lambda>w. mset (GrantedScopes w)) (OIDCWorkflowSession userSession') =
      map_option (\<lambda>w. mset (GrantedScopes w)) (OIDCWorkflowSession userSession) \<longrightarrow>
      isConsentMissing ar' userSession' = isConsentMissing ar userSession)"
proof (intro conjI impI)
  assume "GetRequestedScopes ar = []"
  then show "\<not> isConsentMissing ar userSession"
    by (simp add: isConsentMissing_def)
next
  assume "GetRequestedScopes ar \<noteq> []"
  then show "isConsentMissing ar userSession \<longleftrightarrow>
         (case OIDCWorkflowSession userSession of
            None \<Rightarrow> True
          | Some w \<Rightarrow> set (GetRequestedScopes ar) \<noteq> set (GrantedScopes w))"
    by (simp add: isConsentMissing_def IsStringSlicesDifferent_set split: option.splits)
next
  assume h: "mset (GetRequestedScopes ar') = mset (GetRequestedScopes ar) \<and>
    map_option (\<lambda>w. mset (GrantedScopes w)) (OIDCWorkflowSession userSession') =
      map_option (\<lambda>w. mset (GrantedScopes w)) (OIDCWorkflowSession userSession)"
  then have s1: "set (GetRequestedScopes ar') = set (GetRequestedScopes ar)"
    and l: "length (GetRequestedScopes ar') = length (GetRequestedScopes ar)"
    by (auto dest: mset_eq_setD mset_eq_length)
  show "isConsentMissing ar' userSession' = isConsentMissing ar userSession"
  proof (cases "OIDCWorkflowSession userSession")
    case None
    with h have "OIDCWorkflowSession userSession' = None"
      by simp
    with None l show ?thesis
      by (simp add: isConsentMissing_def)
  next
    case (Some w)
    with h obtain w' where w': "OIDCWorkflowSession userSession' = Some w'"
      and m: "mset (GrantedScopes w') = mset (GrantedScopes w)"
      by auto
    from m have "set (GrantedScopes w') = set (GrantedScopes w)"
      by (rule mset_eq_setD)
    with Some w' l s1 show ?thesis
      by (simp add: isConsentMissing_def IsStringSlicesDifferent_set)
  qed
qed

theorem consent_missing_iff_witness:
  "mset (GetRequestedScopes reorderedRequest) = mset (GetRequestedScopes exampleRequest) \<and>
   OIDCWorkflowSession grantedSession = Some grantedWorkflow \<and>
   GetRequestedScopes exampleRequest \<noteq> [] \<and>
   GetRequestedScopes noScopeRequest = [] \<and>
   set (GetRequestedScopes exampleRequest) = set (GrantedScopes grantedWorkflow) \<and>
   \<not> isConsentMissing noScopeRequest freshSession \<and>
   \<not> isConsentMissing exampleRequest grantedSession \<and>
   \<not> isConsentMissing reorderedRequest grantedSession"
proof -
  have a: "mset (GetRequestedScopes reorderedRequest) = mset (GetRequestedScopes exampleRequest)"
    by (simp add: reorderedRequest_def exampleRequest_def)
  have b: "OIDCWorkflowSession grantedSession = Some grantedWorkflow"
    by (simp add: grantedSession_def freshSession_def)
  have c: "GetRequestedScopes exampleRequest \<noteq> []"
    by (simp add: exampleRequest_def)
  have d: "set (GetRequestedScopes exampleRequest) = set (GrantedScopes grantedWorkflow)"
    by (auto simp add: exampleRequest_def grantedWorkflow_def)
  have e: "GetRequestedScopes noScopeRequest = []"
    by (simp add: noScopeRequest_def exampleRequest_def)
  from consent_missing_iff [of exampleRequest grantedSession reorderedRequest grantedSession]
    consent_missing_iff [of noScopeRequest freshSession noScopeRequest freshSession]
    a b c d e
  show ?thesis by simp
qed

lemma handler_post:
  assumes "NewAuthorizeRequest env = (ar, None)"
    and "getOIDCClientConfig (GetClientID ar) (Clients env) = Some clientConfig"
  shows "authorizeHandler env True store = finalize env ar store []"
  using assms by (simp add: authorizeHandler_def Let_def)

lemma handler_get:
  assumes "NewAuthorizeRequest env = (ar, None)"
    and "getOIDCClientConfig (GetClientID ar) (Clients env) = Some clientConfig"
  shows "authorizeHandler env False store =
     (if isAuthInsufficient env ar store \<or> isConsentMissing ar store
      then pendingWorkflow env ar (GetClientID ar) store
             (GetRequiredLevel env (policySubject env store) (policyObject ar))
             (isConsentMissing ar store)
             [EvGetSession, EvGetRequiredLevel (policySubject env store) (policyObject ar)]
      else finalize env ar store
             [EvGetSession, EvGetRequiredLevel (policySubject env store) (policyObject ar)])"
  using assms by (simp add: authorizeHandler_def Let_def)

lemma foldl_GrantScope_fields:
  "GetRequestedScopes (foldl GrantScope ar xs) = GetRequestedScopes ar \<and>
   GetRequestedAudience (foldl GrantScope ar xs) = GetRequestedAudience ar \<and>
   GetGrantedAudience (foldl GrantScope ar xs) = GetGrantedAudience ar \<and>
   set (GetGrantedScopes (foldl GrantScope ar xs)) = set (GetGrantedScopes ar) \<union> set xs"
  by (induction xs arbitrary: ar) (auto simp: GrantScope_def)

lemma foldl_GrantAudience_fields:
  "GetRequestedScopes (foldl GrantAudience ar xs) = GetRequestedScopes ar \<and>
   GetRequestedAudience (foldl GrantAudience ar xs) = GetRequestedAudience ar \<and>
   GetGrantedScopes (foldl GrantAudience ar xs) = GetGrantedScopes ar \<and>
   set (GetGrantedAudience (foldl GrantAudience ar xs)) = set (GetGrantedAudience ar) \<union> set xs"
  by (induction xs arbitrary: ar) (auto simp: GrantAudience_def)

lemma grantRequested_granted:
  "set (GetGrantedScopes (grantRequested ar)) = set (GetGrantedScopes ar) \<union> set (GetRequestedScopes ar) \<and>
   set (GetGrantedAudience (grantRequested ar)) =
     set (GetGrantedAudience ar) \<union> set (GetRequestedAudience ar) \<and>
   GetRequestedAudience (grantRequested ar) = GetRequestedAudience ar \<and>
   GetRequestedScopes (grantRequested ar) = GetRequestedScopes ar"
  by (simp add: grantRequested_def Let_def foldl_GrantScope_fields foldl_GrantAudience_fields)

lemma finalize_alt:
  "finalize env ar store evs =
     (case SaveSessionError env (store\<lparr>OIDCWorkflowSession := None\<rparr>) of
        Some e \<Rightarrow>
          \<lparr>session = store,
           events = evs @ [EvGetSession,
             EvSaveSession (store\<lparr>OIDCWorkflowSession := None\<rparr>) (Some e), EvHttpError e 500],
           request = grantRequested ar\<rparr>
      | None \<Rightarrow>
          (case NewAuthorizeResponse env (grantRequested ar)
                  (newSession env (store\<lparr>OIDCWorkflowSession := None\<rparr>)
                     (GetRequestedScopes ar) (GetRequestedAudience ar)) of
             Inl e \<Rightarrow>
               \<lparr>session = store\<lparr>OIDCWorkflowSession := None\<rparr>,
                events = evs @ [EvGetSession,
                  EvSaveSession (store\<lparr>OIDCWorkflowSession := None\<rparr>) None,
                  EvNewAuthorizeResponse (grantRequested ar)
                    (newSession env (store\<lparr>OIDCWorkflowSession := None\<rparr>)
                       (GetRequestedScopes ar) (GetRequestedAudience ar)),
                  EvWriteAuthorizeError (grantRequested ar) e],
                request = grantRequested ar\<rparr>
           | Inr response \<Rightarrow>
               \<lparr>session = store\<lparr>OIDCWorkflowSession := None\<rparr>,
                events = evs @ [EvGetSession,
                  EvSaveSession (store\<lparr>OIDCWorkflowSession := None\<rparr>) None,
                  EvNewAuthorizeResponse (grantRequested ar)
                    (newSession env (store\<lparr>OIDCWorkflowSession := None\<rparr>)
                       (GetRequestedScopes ar) (GetRequestedAudience ar)),
                  EvWriteAuthorizeResponse (grantRequested ar) response],
                request = grantRequested ar\<rparr>))"
  by (simp add: finalize_def grantRequested_def Let_def foldl_GrantScope_fields
      split: option.splits sum.splits)

lemma finalize_request: "request (finalize env ar store evs) = grantRequested ar"
  by (simp add: finalize_alt split: option.splits sum.splits)

lemma finalize_save_ok:
  assumes "SaveSessionError env (store\<lparr>OIDCWorkflowSession := None\<rparr>) = None"
  shows "session (finalize env ar store evs) = store\<lparr>OIDCWorkflowSession := None\<rparr> \<and>
    (\<exists>fin. events (finalize env ar store evs) =
       evs @ [EvGetSession, EvSaveSession (store\<lparr>OIDCWorkflowSession := None\<rparr>) None,
              EvNewAuthorizeResponse (grantRequested ar)
                (newSession env (store\<lparr>OIDCWorkflowSession := None\<rparr>)
                   (GetRequestedScopes ar) (GetRequestedAudience ar)),
              fin] \<and>
       fin = (case NewAuthorizeResponse env (grantRequested ar)
                (newSession env (store\<lparr>OIDCWorkflowSession := None\<rparr>)
                   (GetRequestedScopes ar) (GetRequestedAudience ar)) of
                Inl e \<Rightarrow> EvWriteAuthorizeError (grantRequested ar) e
              | Inr response \<Rightarrow> EvWriteAuthorizeResponse (grantRequested ar) response))"
  using assms
  by (simp add: finalize_alt grantRequested_granted split: sum.splits)

lemma finalize_save_fails:
  assumes "SaveSessionError env (store\<lparr>OIDCWorkflowSession := None\<rparr>) = Some e"
  shows "session (finalize env ar store evs) = store \<and>
    events (finalize env ar store evs) =
       evs @ [EvGetSession, EvSaveSession (store\<lparr>OIDCWorkflowSession := None\<rparr>) (Some e),
              EvHttpError e 500]"
  using assms by (simp add: finalize_alt)

lemma savedSessions_append: "savedSessions (xs @ ys) = savedSessions xs @ savedSessions ys"
  by (induction xs rule: savedSessions.induct) auto

lemma pending_no_url:
  assumes "GetOriginalURL env = Inl e"
  shows "pendingWorkflow env ar clientID userSession lvl consentMissing evs =
    \<lparr>session = userSession, events = evs @ [EvGetOriginalURL, EvHttpError e 500],
     request = ar\<rparr>"
  using assms by (simp add: pendingWorkflow_def)

lemma pending_save_fails:
  assumes "GetOriginalURL env = Inr forwardedURI"
    and "SaveSessionError env (userSession\<lparr>OIDCWorkflowSession :=
           Some (installedWorkflow clientID ar forwardedURI lvl)\<rparr>) = Some e"
  shows "pendingWorkflow env ar clientID userSession lvl consentMissing evs =
    \<lparr>session = userSession,
     events = evs @ [EvGetOriginalURL,
        EvSaveSession (userSession\<lparr>OIDCWorkflowSession :=
           Some (installedWorkflow clientID ar forwardedURI lvl)\<rparr>) (Some e),
        EvHttpError e 500],
     request = ar\<rparr>"
  using assms by (simp add: pendingWorkflow_def Let_def)

lemma pending_no_host:
  assumes "GetOriginalURL env = Inr forwardedURI"
    and "SaveSessionError env (userSession\<lparr>OIDCWorkflowSession :=
           Some (installedWorkflow clientID ar forwardedURI lvl)\<rparr>) = None"
    and "ForwardedProtoHost env = Inl e"
  shows "pendingWorkflow env ar clientID userSession lvl consentMissing evs =
    \<lparr>session = userSession\<lparr>OIDCWorkflowSession :=
           Some (installedWorkflow clientID ar forwardedURI lvl)\<rparr>,
     events = evs @ [EvGetOriginalURL,
        EvSaveSession (userSession\<lparr>OIDCWorkflowSession :=
           Some (installedWorkflow clientID ar forwardedURI lvl)\<rparr>) None,
        EvForwardedProtoHost, EvHttpError e 500],
     request = ar\<rparr>"
  using assms by (simp add: pendingWorkflow_def Let_def)

lemma pending_redirect:
  assumes "GetOriginalURL env = Inr forwardedURI"
    and "SaveSessionError env (userSession\<lparr>OIDCWorkflowSession :=
           Some (installedWorkflow clientID ar forwardedURI lvl)\<rparr>) = None"
    and "ForwardedProtoHost env = Inr uri"
  shows "pendingWorkflow env ar clientID userSession lvl consentMissing evs =
    \<lparr>session = userSession\<lparr>OIDCWorkflowSession :=
           Some (installedWorkflow clientID ar forwardedURI lvl)\<rparr>,
     events = evs @ [EvGetOriginalURL,
        EvSaveSession (userSession\<lparr>OIDCWorkflowSession :=
           Some (installedWorkflow clientID ar forwardedURI lvl)\<rparr>) None,
        EvForwardedProtoHost,
        EvRedirect (if consentMissing then uri @ ''/consent''
                    else uri @ ''?workflow=openid'') 302],
     request = ar\<rparr>"
  using assms by (simp add: pendingWorkflow_def Let_def)


lemma handler_pending:
  assumes "NewAuthorizeRequest env = (ar, None)"
    and "getOIDCClientConfig (GetClientID ar) (Clients env) = Some clientConfig"
    and "isAuthInsufficient env ar store \<or> isConsentMissing ar store"
  shows "authorizeHandler env False store =
     pendingWorkflow env ar (GetClientID ar) store
       (GetRequiredLevel env (policySubject env store) (policyObject ar))
       (isConsentMissing ar store) (policyCalls env ar store)"
  using assms handler_get [of env ar clientConfig store] by (simp add: policyCalls_def)

lemma handler_satisfied:
  assumes "NewAuthorizeRequest env = (ar, None)"
    and "getOIDCClientConfig (GetClientID ar) (Clients env) = Some clientConfig"
    and "\<not> isAuthInsufficient env ar store" and "\<not> isConsentMissing ar store"
  shows "authorizeHandler env False store = finalize env ar store (policyCalls env ar store)"
  using assms handler_get [of env ar clientConfig store] by (simp add: policyCalls_def)

lemma example_parse: "NewAuthorizeRequest exampleEnv = (exampleRequest, None)"
  by (simp add: exampleEnv_def)

lemma example_client:
  "getOIDCClientConfig (GetClientID exampleRequest) (Clients exampleEnv) = Some exampleClient"
  by (simp add: exampleEnv_def exampleRequest_def exampleClient_def)

lemma example_consent_missing:
  "isConsentMissing exampleRequest freshSession \<and> isConsentMissing exampleRequest anonymousSession"
  by (simp add: isConsentMissing_def exampleRequest_def freshSession_def anonymousSession_def)

lemma example_auth:
  "\<not> isAuthInsufficient exampleEnv ar freshSession \<and> isAuthInsufficient exampleEnv ar anonymousSession"
  by (simp add: isAuthInsufficient_def exampleEnv_def freshSession_def anonymousSession_def)

text \<open>
  Claim C4. When authentication is insufficient or consent is missing and the forwarded
  URI, the save and the proxy host all succeed, the last call of the invocation is a 302
  redirect, the only redirect made: to the consent endpoint when consent is missing, also
  when authentication is insufficient too, and to the entry point with the
  \<^verbatim>\<open>workflow=openid\<close> marker otherwise. No response is built.
\<close>

theorem pending_redirect_target:
  "NewAuthorizeRequest env = (ar, None) \<and>
   getOIDCClientConfig (GetClientID ar) (Clients env) = Some clientConfig \<and>
   (isAuthInsufficient env ar store \<or> isConsentMissing ar store) \<and>
   GetOriginalURL env = Inr forwardedURI \<and>
   SaveSessionError env (pendingSession env ar store forwardedURI) = None \<and>
   ForwardedProtoHost env = Inr uri \<longrightarrow>
     last (events (authorizeHandler env False store)) =
       EvRedirect (if isConsentMissing ar store then uri @ ''/consent''
                   else uri @ ''?workflow=openid'') 302 \<and>
     filter isRedirect (events (authorizeHandler env False store)) =
       [last (events (authorizeHandler env False store))] \<and>
     filter isNewAuthorizeResponse (events (authorizeHandler env False store)) = [] \<and>
     request (authorizeHandler env False store) = ar"
proof
  assume h: "NewAuthorizeRequest env = (ar, None) \<and>
   getOIDCClientConfig (GetClientID ar) (Clients env) = Some clientConfig \<and>
   (isAuthInsufficient env ar store \<or> isConsentMissing ar store) \<and>
   GetOriginalURL env = Inr forwardedURI \<and>
   SaveSessionError env (pendingSession env ar store forwardedURI) = None \<and>
   ForwardedProtoHost env = Inr uri"
  then have run: "authorizeHandler env False store =
      pendingWorkflow env ar (GetClientID ar) store
        (GetRequiredLevel env (policySubject env store) (policyObject ar))
        (isConsentMissing ar store) (policyCalls env ar store)"
    using handler_pending [of env ar clientConfig store] by presburger
  from h have "pendingWorkflow env ar (GetClientID ar) store
        (GetRequiredLevel env (policySubject env store) (policyObject ar))
        (isConsentMissing ar store) (policyCalls env ar store) =
      \<lparr>session = pendingSession env ar store forwardedURI,
       events = policyCalls env ar store @ [EvGetOriginalURL,
         EvSaveSession (pendingSession env ar store forwardedURI) None,
         EvForwardedProtoHost,
         EvRedirect (if isConsentMissing ar store then uri @ ''/consent''
                     else uri @ ''?workflow=openid'') 302],
       request = ar\<rparr>"
    using pending_redirect [where env = env and forwardedURI = forwardedURI
        and userSession = store and clientID = "GetClientID ar" and ar = ar and uri = uri]
    by (simp add: pendingSession_def)
  with run show "last (events (authorizeHandler env False store)) =
       EvRedirect (if isConsentMissing ar store then uri @ ''/consent''
                   else uri @ ''?workflow=openid'') 302 \<and>
     filter isRedirect (events (authorizeHandler env False store)) =
       [last (events (authorizeHandler env False store))] \<and>
     filter isNewAuthorizeResponse (events (authorizeHandler env False store)) = [] \<and>
     request (authorizeHandler env False store) = ar"
    by (simp add: policyCalls_def)
qed

theorem pending_redirect_target_witness:
  "isAuthInsufficient exampleEnv exampleRequest anonymousSession \<and>
   isConsentMissing exampleRequest anonymousSession \<and>
   GetOriginalURL exampleEnv = Inr ''https://auth.example.com/api/oidc/authorize'' \<and>
   ForwardedProtoHost exampleEnv = Inr ''https://auth.example.com'' \<and>
   last (events (authorizeHandler exampleEnv False anonymousSession)) =
     EvRedirect ''https://auth.example.com/consent'' 302"
proof -
  have u: "GetOriginalURL exampleEnv = Inr ''https://auth.example.com/api/oidc/authorize''"
    and p: "ForwardedProtoHost exampleEnv = Inr ''https://auth.example.com''"
    and s: "SaveSessionError exampleEnv (pendingSession exampleEnv exampleRequest
        anonymousSession ''https://auth.example.com/api/oidc/authorize'') = None"
    by (simp_all add: exampleEnv_def)
  from pending_redirect_target [of exampleEnv exampleRequest exampleClient anonymousSession
      "''https://auth.example.com/api/oidc/authorize''" "''https://auth.example.com''"]
    example_parse example_client example_consent_missing example_auth [of exampleRequest] u p s
  show ?thesis by simp
qed

lemma noProtoHost_facts:
  "NewAuthorizeRequest noProtoHostEnv = (exampleRequest, None) \<and>
   getOIDCClientConfig (GetClientID exampleRequest) (Clients noProtoHostEnv) = Some exampleClient \<and>
   GetOriginalURL noProtoHostEnv = Inr ''https://auth.example.com/api/oidc/authorize'' \<and>
   ForwardedProtoHost noProtoHostEnv = Inl ''Missing header X-Forwarded-Host'' \<and>
   SaveSessionError noProtoHostEnv s = None \<and>
   pendingSession noProtoHostEnv exampleRequest freshSession
     ''https://auth.example.com/api/oidc/authorize'' =
   freshSession\<lparr>OIDCWorkflowSession := Some examplePendingWorkflow\<rparr>"
  by (simp add: noProtoHostEnv_def exampleEnv_def exampleRequest_def exampleClient_def
      pendingSession_def installedWorkflow_def newOIDCWorkflowSession_def
      examplePendingWorkflow_def)

text \<open>
  Claim C2, as the code has it. In the pending branch each of the three failures ends the
  invocation with a 500 answer as its last call, and nothing is saved after it. When the
  forwarded URI cannot be resolved no save is attempted and the store keeps its session;
  when the save fails the store keeps its session. The save comes after the forwarded URI
  is resolved but before the proxy host and scheme are: when that last resolution fails,
  the session with the newly installed workflow has already been saved.
\<close>

theorem pending_infrastructure_failure:
  "NewAuthorizeRequest env = (ar, None) \<and>
   getOIDCClientConfig (GetClientID ar) (Clients env) = Some clientConfig \<and>
   (isAuthInsufficient env ar store \<or> isConsentMissing ar store) \<longrightarrow>
     (GetOriginalURL env = Inl e \<longrightarrow>
        events (authorizeHandler env False store) =
          policyCalls env ar store @ [EvGetOriginalURL, EvHttpError e 500] \<and>
        savedSessions (events (authorizeHandler env False store)) = [] \<and>
        session (authorizeHandler env False store) = store) \<and>
     (GetOriginalURL env = Inr forwardedURI \<and>
      SaveSessionError env (pendingSession env ar store forwardedURI) = Some e \<longrightarrow>
        events (authorizeHandler env False store) =
          policyCalls env ar store @ [EvGetOriginalURL,
            EvSaveSession (pendingSession env ar store forwardedURI) (Some e),
            EvHttpError e 500] \<and>
        session (authorizeHandler env False store) = store) \<and>
     (GetOriginalURL env = Inr forwardedURI \<and>
      SaveSessionError env (pendingSession env ar store forwardedURI) = None \<and>
      ForwardedProtoHost env = Inl e \<longrightarrow>
        events (authorizeHandler env False store) =
          policyCalls env ar store @ [EvGetOriginalURL,
            EvSaveSession (pendingSession env ar store forwardedURI) None,
            EvForwardedProtoHost, EvHttpError e 500] \<and>
        session (authorizeHandler env False store) = pendingSession env ar store forwardedURI)"
proof (intro impI conjI)
  assume h: "NewAuthorizeRequest env = (ar, None) \<and>
   getOIDCClientConfig (GetClientID ar) (Clients env) = Some clientConfig \<and>
   (isAuthInsufficient env ar store \<or> isConsentMissing ar store)"
  then have run: "authorizeHandler env False store =
      pendingWorkflow env ar (GetClientID ar) store
        (GetRequiredLevel env (policySubject env store) (policyObject ar))
        (isConsentMissing ar store) (policyCalls env ar store)"
    using handler_pending [of env ar clientConfig store] by presburger
  {
    assume "GetOriginalURL env = Inl e"
    then have r: "authorizeHandler env False store =
      \<lparr>session = store, events = policyCalls env ar store @ [EvGetOriginalURL, EvHttpError e 500],
       request = ar\<rparr>"
      unfolding run by (rule pending_no_url)
    show "events (authorizeHandler env False store) =
          policyCalls env ar store @ [EvGetOriginalURL, EvHttpError e 500]"
      by (simp add: r)
    show "savedSessions (events (authorizeHandler env False store)) = []"
      by (simp add: r policyCalls_def)
    show "session (authorizeHandler env False store) = store"
      by (simp add: r)
  }
  {
    assume "GetOriginalURL env = Inr forwardedURI \<and>
      SaveSessionError env (pendingSession env ar store forwardedURI) = Some e"
    then have r: "authorizeHandler env False store =
      \<lparr>session = store,
       events = policyCalls env ar store @ [EvGetOriginalURL,
            EvSaveSession (pendingSession env ar store forwardedURI) (Some e),
            EvHttpError e 500],
       request = ar\<rparr>"
      unfolding run pendingSession_def by (simp add: pending_save_fails)
    show "events (authorizeHandler env False store) =
          policyCalls env ar store @ [EvGetOriginalURL,
            EvSaveSession (pendingSession env ar store forwardedURI) (Some e),
            EvHttpError e 500]"
      by (simp add: r)
    show "session (authorizeHandler env False store) = store"
      by (simp add: r)
  }
  {
    assume "GetOriginalURL env = Inr forwardedURI \<and>
      SaveSessionError env (pendingSession env ar store forwardedURI) = None \<and>
      ForwardedProtoHost env = Inl e"
    then have r: "authorizeHandler env False store =
      \<lparr>session = pendingSession env ar store forwardedURI,
       events = policyCalls env ar store @ [EvGetOriginalURL,
            EvSaveSession (pendingSession env ar store forwardedURI) None,
            EvForwardedProtoHost, EvHttpError e 500],
       request = ar\<rparr>"
      unfolding run pendingSession_def by (simp add: pending_no_host)
    show "events (authorizeHandler env False store) =
          policyCalls env ar store @ [EvGetOriginalURL,
            EvSaveSession (pendingSession env ar store forwardedURI) None,
            EvForwardedProtoHost, EvHttpError e 500]"
      by (simp add: r)
    show "session (authorizeHandler env False store) = pendingSession env ar store forwardedURI"
      by (simp add: r)
  }
qed

theorem pending_infrastructure_failure_witness:
  "isConsentMissing exampleRequest freshSession \<and>
   GetOriginalURL noOriginalURLEnv = Inl ''Missing header X-Original-URL'' \<and>
   events (authorizeHandler noOriginalURLEnv False freshSession) =
     policyCalls noOriginalURLEnv exampleRequest freshSession @
       [EvGetOriginalURL, EvHttpError ''Missing header X-Original-URL'' 500] \<and>
   savedSessions (events (authorizeHandler noOriginalURLEnv False freshSession)) = [] \<and>
   GetOriginalURL saveFailsEnv = Inr ''https://auth.example.com/api/oidc/authorize'' \<and>
   SaveSessionError saveFailsEnv (pendingSession saveFailsEnv exampleRequest freshSession
     ''https://auth.example.com/api/oidc/authorize'') = Some ''session store down'' \<and>
   events (authorizeHandler saveFailsEnv False freshSession) =
     policyCalls saveFailsEnv exampleRequest freshSession @ [EvGetOriginalURL,
       EvSaveSession (pendingSession saveFailsEnv exampleRequest freshSession
         ''https://auth.example.com/api/oidc/authorize'') (Some ''session store down''),
       EvHttpError ''session store down'' 500] \<and>
   session (authorizeHandler saveFailsEnv False freshSession) = freshSession \<and>
   GetOriginalURL noProtoHostEnv = Inr ''https://auth.example.com/api/oidc/authorize'' \<and>
   ForwardedProtoHost noProtoHostEnv = Inl ''Missing header X-Forwarded-Host'' \<and>
   events (authorizeHandler noProtoHostEnv False freshSession) =
     policyCalls noProtoHostEnv exampleRequest freshSession @ [EvGetOriginalURL,
       EvSaveSession (freshSession\<lparr>OIDCWorkflowSession := Some examplePendingWorkflow\<rparr>) None,
       EvForwardedProtoHost, EvHttpError ''Missing header X-Forwarded-Host'' 500]"
proof -
  have m: "isConsentMissing exampleRequest freshSession"
    using example_consent_missing by simp
  have u: "NewAuthorizeRequest noOriginalURLEnv = (exampleRequest, None) \<and>
      getOIDCClientConfig (GetClientID exampleRequest) (Clients noOriginalURLEnv) =
        Some exampleClient \<and>
      GetOriginalURL noOriginalURLEnv = Inl ''Missing header X-Original-URL''"
    by (simp add: noOriginalURLEnv_def exampleEnv_def exampleRequest_def exampleClient_def)
  have v: "NewAuthorizeRequest saveFailsEnv = (exampleRequest, None) \<and>
      getOIDCClientConfig (GetClientID exampleRequest) (Clients saveFailsEnv) =
        Some exampleClient \<and>
      GetOriginalURL saveFailsEnv = Inr ''https://auth.example.com/api/oidc/authorize'' \<and>
      SaveSessionError saveFailsEnv (pendingSession saveFailsEnv exampleRequest freshSession
        ''https://auth.example.com/api/oidc/authorize'') = Some ''session store down''"
    by (simp add: saveFailsEnv_def exampleEnv_def exampleRequest_def exampleClient_def)
  from pending_infrastructure_failure [of noOriginalURLEnv exampleRequest exampleClient
      freshSession "''Missing header X-Original-URL''" "[]"] m u
  have a: "events (authorizeHandler noOriginalURLEnv False freshSession) =
     policyCalls noOriginalURLEnv exampleRequest freshSession @
       [EvGetOriginalURL, EvHttpError ''Missing header X-Original-URL'' 500] \<and>
   savedSessions (events (authorizeHandler noOriginalURLEnv False freshSession)) = []"
    by blast
  from pending_infrastructure_failure [of saveFailsEnv exampleRequest exampleClient
      freshSession "''session store down''" "''https://auth.example.com/api/oidc/authorize''"] m v
  have b: "events (authorizeHandler saveFailsEnv False freshSession) =
     policyCalls saveFailsEnv exampleRequest freshSession @ [EvGetOriginalURL,
       EvSaveSession (pendingSession saveFailsEnv exampleRequest freshSession
         ''https://auth.example.com/api/oidc/authorize'') (Some ''session store down''),
       EvHttpError ''session store down'' 500] \<and>
   session (authorizeHandler saveFailsEnv False freshSession) = freshSession"
    by blast
  from pending_infrastructure_failure [of noProtoHostEnv exampleRequest exampleClient freshSession
      "''Missing header X-Forwarded-Host''" "''https://auth.example.com/api/oidc/authorize''"]
    noProtoHost_facts m
  have c: "events (authorizeHandler noProtoHostEnv False freshSession) =
     policyCalls noProtoHostEnv exampleRequest freshSession @ [EvGetOriginalURL,
       EvSaveSession (freshSession\<lparr>OIDCWorkflowSession := Some examplePendingWorkflow\<rparr>) None,
       EvForwardedProtoHost, EvHttpError ''Missing header X-Forwarded-Host'' 500]"
    by simp
  from m u v a b c noProtoHost_facts show ?thesis
    by blast
qed

theorem save_precedes_proto_host_counterexample:
  "isConsentMissing exampleRequest freshSession \<and>
   ForwardedProtoHost noProtoHostEnv = Inl ''Missing header X-Forwarded-Host'' \<and>
   events (authorizeHandler noProtoHostEnv False freshSession) =
     [EvGetSession,
      EvGetRequiredLevel (Subject ''john'' [''dev''] ''192.168.0.7'')
        (NewObjectRaw ''https://app.example.com/callback'' ''GET''),
      EvGetOriginalURL,
      EvSaveSession (freshSession\<lparr>OIDCWorkflowSession := Some examplePendingWorkflow\<rparr>) None,
      EvForwardedProtoHost,
      EvHttpError ''Missing header X-Forwarded-Host'' 500] \<and>
   OIDCWorkflowSession freshSession = None \<and>
   OIDCWorkflowSession (session (authorizeHandler noProtoHostEnv False freshSession)) =
     Some examplePendingWorkflow"
proof -
  have run: "authorizeHandler noProtoHostEnv False freshSession =
      pendingWorkflow noProtoHostEnv exampleRequest (GetClientID exampleRequest) freshSession
        (GetRequiredLevel noProtoHostEnv (policySubject noProtoHostEnv freshSession)
           (policyObject exampleRequest))
        (isConsentMissing exampleRequest freshSession)
        (policyCalls noProtoHostEnv exampleRequest freshSession)"
    using handler_pending [of noProtoHostEnv exampleRequest exampleClient freshSession]
      noProtoHost_facts example_consent_missing by simp
  have calls: "policyCalls noProtoHostEnv exampleRequest freshSession =
      [EvGetSession,
       EvGetRequiredLevel (Subject ''john'' [''dev''] ''192.168.0.7'')
         (NewObjectRaw ''https://app.example.com/callback'' ''GET'')]"
    by (simp add: policyCalls_def policySubject_def policyObject_def noProtoHostEnv_def
        exampleEnv_def freshSession_def exampleRequest_def)
  have "authorizeHandler noProtoHostEnv False freshSession =
      \<lparr>session = freshSession\<lparr>OIDCWorkflowSession := Some examplePendingWorkflow\<rparr>,
       events = policyCalls noProtoHostEnv exampleRequest freshSession @ [EvGetOriginalURL,
         EvSaveSession (freshSession\<lparr>OIDCWorkflowSession := Some examplePendingWorkflow\<rparr>) None,
         EvForwardedProtoHost, EvHttpError ''Missing header X-Forwarded-Host'' 500],
       request = exampleRequest\<rparr>"
    unfolding run
    using pending_no_host [where env = noProtoHostEnv and userSession = freshSession
        and ar = exampleRequest and clientID = "GetClientID exampleRequest"
        and forwardedURI = "''https://auth.example.com/api/oidc/authorize''"
        and e = "''Missing header X-Forwarded-Host''"]
      noProtoHost_facts
    by (simp add: pendingSession_def)
  then show ?thesis
    using example_consent_missing noProtoHost_facts
    by (simp add: calls) (simp add: freshSession_def)
qed

lemma handler_finalize:
  assumes "NewAuthorizeRequest env = (ar, None)"
    and "getOIDCClientConfig (GetClientID ar) (Clients env) = Some clientConfig"
    and "post \<or> (\<not> isAuthInsufficient env ar store \<and> \<not> isConsentMissing ar store)"
  shows "authorizeHandler env post store =
     finalize env ar store (if post then [] else policyCalls env ar store)"
proof (cases post)
  case True
  then show ?thesis
    using assms handler_post [of env ar clientConfig store] by simp
next
  case False
  then show ?thesis
    using assms handler_satisfied [of env ar clientConfig store] by simp
qed

lemma policyCalls_selectors:
  "savedSessions (policyCalls env ar store) = [] \<and>
   filter isNewAuthorizeResponse (policyCalls env ar store) = [] \<and>
   filter isRedirect (policyCalls env ar store) = [] \<and>
   filter isSaveSession (policyCalls env ar store) = [] \<and>
   filter (\<lambda>e. isSaveSession e \<or> isNewAuthorizeResponse e) (policyCalls env ar store) = []"
  by (simp add: policyCalls_def)

text \<open>
  Claim C5. In the satisfied branch (the post entry point, or sufficient authentication
  and no missing consent) every requested scope and every requested audience is granted
  on the request object, and exactly one session is handed to the store: the session with
  its workflow cleared. When that save succeeds the store holds the cleared session and the
  save is followed by the single call of the response builder; when it fails the
  invocation ends with a 500 answer, the store keeps its session and the response builder
  is never called.
\<close>

theorem satisfied_grants_and_clears:
  "NewAuthorizeRequest env = (ar, None) \<and>
   getOIDCClientConfig (GetClientID ar) (Clients env) = Some clientConfig \<and>
   (post \<or> (\<not> isAuthInsufficient env ar store \<and> \<not> isConsentMissing ar store)) \<longrightarrow>
     set (GetRequestedScopes ar) \<subseteq> set (GetGrantedScopes (request (authorizeHandler env post store))) \<and>
     set (GetRequestedAudience ar) \<subseteq>
       set (GetGrantedAudience (request (authorizeHandler env post store))) \<and>
     savedSessions (events (authorizeHandler env post store)) =
       [store\<lparr>OIDCWorkflowSession := None\<rparr>] \<and>
     (SaveSessionError env (store\<lparr>OIDCWorkflowSession := None\<rparr>) = None \<longrightarrow>
        session (authorizeHandler env post store) = store\<lparr>OIDCWorkflowSession := None\<rparr> \<and>
        filter (\<lambda>e. isSaveSession e \<or> isNewAuthorizeResponse e)
            (events (authorizeHandler env post store)) =
          [EvSaveSession (store\<lparr>OIDCWorkflowSession := None\<rparr>) None,
           EvNewAuthorizeResponse (request (authorizeHandler env post store))
             (newSession env (store\<lparr>OIDCWorkflowSession := None\<rparr>)
                (GetRequestedScopes ar) (GetRequestedAudience ar))]) \<and>
     (SaveSessionError env (store\<lparr>OIDCWorkflowSession := None\<rparr>) = Some e \<longrightarrow>
        session (authorizeHandler env post store) = store \<and>
        last (events (authorizeHandler env post store)) = EvHttpError e 500 \<and>
        filter isNewAuthorizeResponse (events (authorizeHandler env post store)) = [])"
proof
  assume h: "NewAuthorizeRequest env = (ar, None) \<and>
   getOIDCClientConfig (GetClientID ar) (Clients env) = Some clientConfig \<and>
   (post \<or> (\<not> isAuthInsufficient env ar store \<and> \<not> isConsentMissing ar store))"
  define evs where "evs = (if post then [] else policyCalls env ar store)"
  have run: "authorizeHandler env post store = finalize env ar store evs"
    unfolding evs_def using h handler_finalize [of env ar clientConfig post store] by presburger
  have sel: "savedSessions evs = [] \<and> filter isNewAuthorizeResponse evs = [] \<and>
    filter (\<lambda>e. isSaveSession e \<or> isNewAuthorizeResponse e) evs = []"
    by (simp add: evs_def policyCalls_selectors)
  have granted: "set (GetRequestedScopes ar) \<subseteq> set (GetGrantedScopes (request (finalize env ar store evs))) \<and>
     set (GetRequestedAudience ar) \<subseteq> set (GetGrantedAudience (request (finalize env ar store evs)))"
    by (simp add: finalize_request grantRequested_granted)
  have saved: "savedSessions (events (finalize env ar store evs)) =
       [store\<lparr>OIDCWorkflowSession := None\<rparr>]"
  proof (cases "SaveSessionError env (store\<lparr>OIDCWorkflowSession := None\<rparr>)")
    case None
    from finalize_save_ok [OF None, of ar evs] show ?thesis
      by (auto simp add: savedSessions_append sel split: sum.splits)
  next
    case (Some e')
    from finalize_save_fails [OF Some, of ar evs] show ?thesis
      by (simp add: savedSessions_append sel)
  qed
  have ok: "SaveSessionError env (store\<lparr>OIDCWorkflowSession := None\<rparr>) = None \<longrightarrow>
        session (finalize env ar store evs) = store\<lparr>OIDCWorkflowSession := None\<rparr> \<and>
        filter (\<lambda>e. isSaveSession e \<or> isNewAuthorizeResponse e)
            (events (finalize env ar store evs)) =
          [EvSaveSession (store\<lparr>OIDCWorkflowSession := None\<rparr>) None,
           EvNewAuthorizeResponse (request (finalize env ar store evs))
             (newSession env (store\<lparr>OIDCWorkflowSession := None\<rparr>)
                (GetRequestedScopes ar) (GetRequestedAudience ar))]"
  proof
    assume n: "SaveSessionError env (store\<lparr>OIDCWorkflowSession := None\<rparr>) = None"
    from finalize_save_ok [OF n, of ar evs] show "session (finalize env ar store evs) = store\<lparr>OIDCWorkflowSession := None\<rparr> \<and>
        filter (\<lambda>e. isSaveSession e \<or> isNewAuthorizeResponse e)
            (events (finalize env ar store evs)) =
          [EvSaveSession (store\<lparr>OIDCWorkflowSession := None\<rparr>) None,
           EvNewAuthorizeResponse (request (finalize env ar store evs))
             (newSession env (store\<lparr>OIDCWorkflowSession := None\<rparr>)
                (GetRequestedScopes ar) (GetRequestedAudience ar))]"
      by (auto simp add: sel finalize_request split: sum.splits)
  qed
  have bad: "SaveSessionError env (store\<lparr>OIDCWorkflowSession := None\<rparr>) = Some e \<longrightarrow>
        session (finalize env ar store evs) = store \<and>
        last (events (finalize env ar store evs)) = EvHttpError e 500 \<and>
        filter isNewAuthorizeResponse (events (finalize env ar store evs)) = []"
  proof
    assume s: "SaveSessionError env (store\<lparr>OIDCWorkflowSession := None\<rparr>) = Some e"
    from finalize_save_fails [OF s, of ar evs] show "session (finalize env ar store evs) = store \<and>
        last (events (finalize env ar store evs)) = EvHttpError e 500 \<and>
        filter isNewAuthorizeResponse (events (finalize env ar store evs)) = []"
      by (simp add: sel)
  qed
  from granted saved ok bad show "set (GetRequestedScopes ar) \<subseteq> set (GetGrantedScopes (request (authorizeHandler env post store))) \<and>
     set (GetRequestedAudience ar) \<subseteq>
       set (GetGrantedAudience (request (authorizeHandler env post store))) \<and>
     savedSessions (events (authorizeHandler env post store)) =
       [store\<lparr>OIDCWorkflowSession := None\<rparr>] \<and>
     (SaveSessionError env (store\<lparr>OIDCWorkflowSession := None\<rparr>) = None \<longrightarrow>
        session (authorizeHandler env post store) = store\<lparr>OIDCWorkflowSession := None\<rparr> \<and>
        filter (\<lambda>e. isSaveSession e \<or> isNewAuthorizeResponse e)
            (events (authorizeHandler env post store)) =
          [EvSaveSession (store\<lparr>OIDCWorkflowSession := None\<rparr>) None,
           EvNewAuthorizeResponse (request (authorizeHandler env post store))
             (newSession env (store\<lparr>OIDCWorkflowSession := None\<rparr>)
                (GetRequestedScopes ar) (GetRequestedAudience ar))]) \<and>
     (SaveSessionError env (store\<lparr>OIDCWorkflowSession := None\<rparr>) = Some e \<longrightarrow>
        session (authorizeHandler env post store) = store \<and>
        last (events (authorizeHandler env post store)) = EvHttpError e 500 \<and>
        filter isNewAuthorizeResponse (events (authorizeHandler env post store)) = [])"
    unfolding run by presburger
qed


lemma granted_facts:
  "\<not> isConsentMissing exampleRequest grantedSession \<and>
   \<not> isAuthInsufficient exampleEnv ar grantedSession \<and>
   grantedSession\<lparr>OIDCWorkflowSession := None\<rparr> = freshSession \<and>
   freshSession\<lparr>OIDCWorkflowSession := None\<rparr> = freshSession \<and>
   SaveSessionError exampleEnv s = None"
  by (simp add: isConsentMissing_def IsStringSlicesDifferent_def exampleRequest_def
      grantedSession_def grantedWorkflow_def freshSession_def isAuthInsufficient_def
      exampleEnv_def)

theorem satisfied_grants_and_clears_witness:
  "\<not> isAuthInsufficient exampleEnv exampleRequest grantedSession \<and>
   \<not> isConsentMissing exampleRequest grantedSession \<and>
   SaveSessionError exampleEnv (grantedSession\<lparr>OIDCWorkflowSession := None\<rparr>) = None \<and>
   set (GetRequestedScopes exampleRequest) \<subseteq>
     set (GetGrantedScopes (request (authorizeHandler exampleEnv False grantedSession))) \<and>
   savedSessions (events (authorizeHandler exampleEnv False grantedSession)) = [freshSession] \<and>
   session (authorizeHandler exampleEnv False grantedSession) = freshSession \<and>
   SaveSessionError saveFailsEnv (grantedSession\<lparr>OIDCWorkflowSession := None\<rparr>) =
     Some ''session store down'' \<and>
   last (events (authorizeHandler saveFailsEnv True grantedSession)) =
     EvHttpError ''session store down'' 500 \<and>
   filter isNewAuthorizeResponse (events (authorizeHandler saveFailsEnv True grantedSession)) = [] \<and>
   session (authorizeHandler saveFailsEnv True grantedSession) = grantedSession"
proof -
  have v: "NewAuthorizeRequest saveFailsEnv = (exampleRequest, None) \<and>
      getOIDCClientConfig (GetClientID exampleRequest) (Clients saveFailsEnv) =
        Some exampleClient \<and>
      SaveSessionError saveFailsEnv (grantedSession\<lparr>OIDCWorkflowSession := None\<rparr>) =
        Some ''session store down''"
    by (simp add: saveFailsEnv_def exampleEnv_def exampleRequest_def exampleClient_def)
  from satisfied_grants_and_clears [of exampleEnv exampleRequest exampleClient False
      grantedSession "''none''"]
    example_parse example_client granted_facts [of exampleRequest freshSession]
  have a: "set (GetRequestedScopes exampleRequest) \<subseteq>
     set (GetGrantedScopes (request (authorizeHandler exampleEnv False grantedSession))) \<and>
   savedSessions (events (authorizeHandler exampleEnv False grantedSession)) = [freshSession] \<and>
   session (authorizeHandler exampleEnv False grantedSession) = freshSession"
    by simp
  from satisfied_grants_and_clears [of saveFailsEnv exampleRequest exampleClient True
      grantedSession "''session store down''"] v
  have b: "last (events (authorizeHandler saveFailsEnv True grantedSession)) =
     EvHttpError ''session store down'' 500 \<and>
   filter isNewAuthorizeResponse (events (authorizeHandler saveFailsEnv True grantedSession)) = [] \<and>
   session (authorizeHandler saveFailsEnv True grantedSession) = grantedSession"
    by simp
  from a b v granted_facts [of exampleRequest "grantedSession\<lparr>OIDCWorkflowSession := None\<rparr>"]
  show ?thesis by blast
qed

text \<open>
  Claim C10. Whenever the response builder is called, the store already holds a session
  without workflow. In particular, when the satisfied branch saves the cleared session and
  the response builder then fails, the invocation ends with the engine's error writer, the
  save precedes the builder call, and the stored session has no workflow.
\<close>

theorem response_failure_leaves_no_workflow:
  "(filter isNewAuthorizeResponse (events (authorizeHandler env post store)) \<noteq> [] \<longrightarrow>
      OIDCWorkflowSession (session (authorizeHandler env post store)) = None) \<and>
   (NewAuthorizeRequest env = (ar, None) \<and>
    getOIDCClientConfig (GetClientID ar) (Clients env) = Some clientConfig \<and>
    (post \<or> (\<not> isAuthInsufficient env ar store \<and> \<not> isConsentMissing ar store)) \<and>
    SaveSessionError env (store\<lparr>OIDCWorkflowSession := None\<rparr>) = None \<and>
    NewAuthorizeResponse env (grantRequested ar)
      (newSession env (store\<lparr>OIDCWorkflowSession := None\<rparr>)
         (GetRequestedScopes ar) (GetRequestedAudience ar)) = Inl e \<longrightarrow>
      last (events (authorizeHandler env post store)) =
        EvWriteAuthorizeError (grantRequested ar) e \<and>
      filter (\<lambda>e. isSaveSession e \<or> isNewAuthorizeResponse e)
          (events (authorizeHandler env post store)) =
        [EvSaveSession (store\<lparr>OIDCWorkflowSession := None\<rparr>) None,
         EvNewAuthorizeResponse (grantRequested ar)
           (newSession env (store\<lparr>OIDCWorkflowSession := None\<rparr>)
              (GetRequestedScopes ar) (GetRequestedAudience ar))] \<and>
      session (authorizeHandler env post store) = store\<lparr>OIDCWorkflowSession := None\<rparr> \<and>
      OIDCWorkflowSession (session (authorizeHandler env post store)) = None)"
proof (intro conjI impI)
  assume b: "filter isNewAuthorizeResponse (events (authorizeHandler env post store)) \<noteq> []"
  obtain ar' perr where p: "NewAuthorizeRequest env = (ar', perr)"
    by (cases "NewAuthorizeRequest env")
  have fin: "filter isNewAuthorizeResponse evs = [] \<Longrightarrow>
      filter isNewAuthorizeResponse (events (finalize env ar' store evs)) \<noteq> [] \<Longrightarrow>
      OIDCWorkflowSession (session (finalize env ar' store evs)) = None" for evs
    by (auto simp add: finalize_alt split: option.splits sum.splits)
  have pend: "filter isNewAuthorizeResponse
      (events (pendingWorkflow env ar' c store l m (policyCalls env ar' store))) = []" for c l m
    by (simp add: pendingWorkflow_def Let_def policyCalls_def split: option.splits sum.splits)
  show "OIDCWorkflowSession (session (authorizeHandler env post store)) = None"
  proof (cases perr)
    case (Some e')
    with p b show ?thesis by (simp add: authorizeHandler_def)
  next
    case None
    note parse = p [unfolded None]
    show ?thesis
    proof (cases "getOIDCClientConfig (GetClientID ar') (Clients env)")
      case None
      with parse b show ?thesis by (simp add: authorizeHandler_def)
    next
      case (Some cc)
      show ?thesis
      proof (cases "post \<or> (\<not> isAuthInsufficient env ar' store \<and> \<not> isConsentMissing ar' store)")
        case True
        from handler_finalize [OF parse Some True] b
          fin [of "if post then [] else policyCalls env ar' store"]
        show ?thesis by (simp add: policyCalls_selectors split: if_splits)
      next
        case False
        then have "authorizeHandler env post store =
            pendingWorkflow env ar' (GetClientID ar') store
              (GetRequiredLevel env (policySubject env store) (policyObject ar'))
              (isConsentMissing ar' store) (policyCalls env ar' store)"
          using handler_pending [OF parse Some, of store] by auto
        with b pend show ?thesis by simp
      qed
    qed
  qed
next
  assume h: "NewAuthorizeRequest env = (ar, None) \<and>
    getOIDCClientConfig (GetClientID ar) (Clients env) = Some clientConfig \<and>
    (post \<or> (\<not> isAuthInsufficient env ar store \<and> \<not> isConsentMissing ar store)) \<and>
    SaveSessionError env (store\<lparr>OIDCWorkflowSession := None\<rparr>) = None \<and>
    NewAuthorizeResponse env (grantRequested ar)
      (newSession env (store\<lparr>OIDCWorkflowSession := None\<rparr>)
         (GetRequestedScopes ar) (GetRequestedAudience ar)) = Inl e"
  define evs where "evs = (if post then [] else policyCalls env ar store)"
  have run: "authorizeHandler env post store = finalize env ar store evs"
    unfolding evs_def using h handler_finalize [of env ar clientConfig post store] by presburger
  have sel: "filter (\<lambda>e. isSaveSession e \<or> isNewAuthorizeResponse e) evs = []"
    by (simp add: evs_def policyCalls_selectors)
  from h have n: "SaveSessionError env (store\<lparr>OIDCWorkflowSession := None\<rparr>) = None"
    by simp
  from finalize_save_ok [OF n, of ar evs] h sel
  have r: "last (events (finalize env ar store evs)) = EvWriteAuthorizeError (grantRequested ar) e \<and>
      filter (\<lambda>e. isSaveSession e \<or> isNewAuthorizeResponse e) (events (finalize env ar store evs)) =
        [EvSaveSession (store\<lparr>OIDCWorkflowSession := None\<rparr>) None,
         EvNewAuthorizeResponse (grantRequested ar)
           (newSession env (store\<lparr>OIDCWorkflowSession := None\<rparr>)
              (GetRequestedScopes ar) (GetRequestedAudience ar))] \<and>
      session (finalize env ar store evs) = store\<lparr>OIDCWorkflowSession := None\<rparr>"
    by auto
  from r show "last (events (authorizeHandler env post store)) =
        EvWriteAuthorizeError (grantRequested ar) e"
    unfolding run by simp
  from r show "filter (\<lambda>e. isSaveSession e \<or> isNewAuthorizeResponse e)
          (events (authorizeHandler env post store)) =
        [EvSaveSession (store\<lparr>OIDCWorkflowSession := None\<rparr>) None,
         EvNewAuthorizeResponse (grantRequested ar)
           (newSession env (store\<lparr>OIDCWorkflowSession := None\<rparr>)
              (GetRequestedScopes ar) (GetRequestedAudience ar))]"
    unfolding run by simp
  from r show "session (authorizeHandler env post store) = store\<lparr>OIDCWorkflowSession := None\<rparr>"
    unfolding run by simp
  from r show "OIDCWorkflowSession (session (authorizeHandler env post store)) = None"
    unfolding run by simp
qed

lemma filter_build_after_select:
  "filter isNewAuthorizeResponse (filter (\<lambda>e. isSaveSession e \<or> isNewAuthorizeResponse e) evs) =
   filter isNewAuthorizeResponse evs"
  by (induction evs) auto

lemma responseFails_facts:
  "NewAuthorizeRequest responseFailsEnv = (exampleRequest, None) \<and>
   getOIDCClientConfig (GetClientID exampleRequest) (Clients responseFailsEnv) = Some exampleClient \<and>
   SaveSessionError responseFailsEnv s = None \<and>
   NewAuthorizeResponse responseFailsEnv a os = Inl ''invalid_request''"
  by (simp add: responseFailsEnv_def exampleEnv_def exampleRequest_def exampleClient_def)

theorem response_failure_leaves_no_workflow_witness:
  "NewAuthorizeResponse responseFailsEnv (grantRequested exampleRequest)
      (newSession responseFailsEnv (grantedSession\<lparr>OIDCWorkflowSession := None\<rparr>)
         (GetRequestedScopes exampleRequest) (GetRequestedAudience exampleRequest)) =
     Inl ''invalid_request'' \<and>
   OIDCWorkflowSession grantedSession = Some grantedWorkflow \<and>
   last (events (authorizeHandler responseFailsEnv True grantedSession)) =
     EvWriteAuthorizeError (grantRequested exampleRequest) ''invalid_request'' \<and>
   filter isNewAuthorizeResponse (events (authorizeHandler responseFailsEnv True grantedSession)) \<noteq> [] \<and>
   OIDCWorkflowSession (session (authorizeHandler responseFailsEnv True grantedSession)) = None"
proof -
  have w: "OIDCWorkflowSession grantedSession = Some grantedWorkflow"
    by (simp add: grantedSession_def freshSession_def)
  note t = response_failure_leaves_no_workflow [of responseFailsEnv True grantedSession
      exampleRequest exampleClient "''invalid_request''"]
  from t responseFails_facts
  have sel: "filter (\<lambda>e. isSaveSession e \<or> isNewAuthorizeResponse e)
          (events (authorizeHandler responseFailsEnv True grantedSession)) =
        [EvSaveSession (grantedSession\<lparr>OIDCWorkflowSession := None\<rparr>) None,
         EvNewAuthorizeResponse (grantRequested exampleRequest)
           (newSession responseFailsEnv (grantedSession\<lparr>OIDCWorkflowSession := None\<rparr>)
              (GetRequestedScopes exampleRequest) (GetRequestedAudience exampleRequest))]"
    by simp
  have called: "filter isNewAuthorizeResponse
      (events (authorizeHandler responseFailsEnv True grantedSession)) \<noteq> []"
    using filter_build_after_select [of "events (authorizeHandler responseFailsEnv True grantedSession)"]
    unfolding sel by (metis filter.simps(2) isNewAuthorizeResponse.simps(1) isSaveSession.simps(1) list.distinct(1) filter.simps(1) isNewAuthorizeResponse.simps(4))
  from t responseFails_facts w called show ?thesis by simp
qed












lemma installedWorkflow_fields:
  "ClientID (installedWorkflow clientID ar forwardedURI lvl) = clientID \<and>
   RequestedScopes (installedWorkflow clientID ar forwardedURI lvl) = GetRequestedScopes ar \<and>
   GrantedScopes (installedWorkflow clientID ar forwardedURI lvl) = [] \<and>
   AuthURI (installedWorkflow clientID ar forwardedURI lvl) = forwardedURI \<and>
   TargetURI (installedWorkflow clientID ar forwardedURI lvl) = GetRedirectURI ar \<and>
   RequiredAuthorizationLevel (installedWorkflow clientID ar forwardedURI lvl) = lvl"
  by (simp add: installedWorkflow_def newOIDCWorkflowSession_def)

lemma pending_saved_session:
  assumes "GetOriginalURL env = Inr forwardedURI"
    and "SaveSessionError env (userSession\<lparr>OIDCWorkflowSession :=
           Some (installedWorkflow clientID ar forwardedURI lvl)\<rparr>) = None"
  shows "session (pendingWorkflow env ar clientID userSession lvl consentMissing evs) =
    userSession\<lparr>OIDCWorkflowSession := Some (installedWorkflow clientID ar forwardedURI lvl)\<rparr>"
  using assms by (simp add: pendingWorkflow_def Let_def split: sum.splits)

lemma pending_builds_nothing:
  assumes "filter isNewAuthorizeResponse evs = []"
  shows "filter isNewAuthorizeResponse
    (events (pendingWorkflow env ar clientID userSession lvl consentMissing evs)) = []"
  using assms by (simp add: pendingWorkflow_def Let_def split: option.splits sum.splits)

text \<open>
  Claim C9. The workflow the pending branch saves carries the client ID, the requested
  scopes, both URIs and the required level, and no granted scope. So for any request
  with at least one scope, consent is missing for the session just saved, and a
  navigation invocation on it takes the pending branch again and never reaches the
  response builder.
\<close>

theorem installed_workflow_grants_nothing:
  "NewAuthorizeRequest env = (ar, None) \<and>
   getOIDCClientConfig (GetClientID ar) (Clients env) = Some clientConfig \<and>
   (isAuthInsufficient env ar store \<or> isConsentMissing ar store) \<and>
   GetOriginalURL env = Inr forwardedURI \<and>
   SaveSessionError env (pendingSession env ar store forwardedURI) = None \<longrightarrow>
     OIDCWorkflowSession (session (authorizeHandler env False store)) =
       Some (installedWorkflow (GetClientID ar) ar forwardedURI
         (GetRequiredLevel env (policySubject env store) (policyObject ar))) \<and>
     GrantedScopes (installedWorkflow (GetClientID ar) ar forwardedURI
         (GetRequiredLevel env (policySubject env store) (policyObject ar))) = [] \<and>
     ClientID (installedWorkflow (GetClientID ar) ar forwardedURI
         (GetRequiredLevel env (policySubject env store) (policyObject ar))) = GetClientID ar \<and>
     RequestedScopes (installedWorkflow (GetClientID ar) ar forwardedURI
         (GetRequiredLevel env (policySubject env store) (policyObject ar))) =
       GetRequestedScopes ar \<and>
     (GetRequestedScopes ar' \<noteq> [] \<longrightarrow>
        isConsentMissing ar' (session (authorizeHandler env False store))) \<and>
     (GetRequestedScopes ar' \<noteq> [] \<and> NewAuthorizeRequest env' = (ar', None) \<and>
      getOIDCClientConfig (GetClientID ar') (Clients env') = Some clientConfig' \<longrightarrow>
        authorizeHandler env' False (session (authorizeHandler env False store)) =
          pendingWorkflow env' ar' (GetClientID ar') (session (authorizeHandler env False store))
            (GetRequiredLevel env'
               (policySubject env' (session (authorizeHandler env False store)))
               (policyObject ar'))
            True (policyCalls env' ar' (session (authorizeHandler env False store))) \<and>
        filter isNewAuthorizeResponse
          (events (authorizeHandler env' False (session (authorizeHandler env False store)))) = [])"
proof
  assume h: "NewAuthorizeRequest env = (ar, None) \<and>
   getOIDCClientConfig (GetClientID ar) (Clients env) = Some clientConfig \<and>
   (isAuthInsufficient env ar store \<or> isConsentMissing ar store) \<and>
   GetOriginalURL env = Inr forwardedURI \<and>
   SaveSessionError env (pendingSession env ar store forwardedURI) = None"
  define w where "w = installedWorkflow (GetClientID ar) ar forwardedURI
         (GetRequiredLevel env (policySubject env store) (policyObject ar))"
  define s where "s = session (authorizeHandler env False store)"
  from h have run: "authorizeHandler env False store =
      pendingWorkflow env ar (GetClientID ar) store
        (GetRequiredLevel env (policySubject env store) (policyObject ar))
        (isConsentMissing ar store) (policyCalls env ar store)"
    using handler_pending [of env ar clientConfig store] by presburger
  from h have stored: "s = store\<lparr>OIDCWorkflowSession := Some w\<rparr>"
    unfolding s_def w_def run
    using pending_saved_session [where env = env and forwardedURI = forwardedURI
        and userSession = store and clientID = "GetClientID ar" and ar = ar]
    by (simp add: pendingSession_def)
  have fields: "GrantedScopes w = [] \<and> ClientID w = GetClientID ar \<and>
      RequestedScopes w = GetRequestedScopes ar"
    by (simp add: w_def installedWorkflow_fields)
  have missing: "isConsentMissing ar' s" if "GetRequestedScopes ar' \<noteq> []"
    using that
    by (cases "GetRequestedScopes ar'")
      (simp_all add: isConsentMissing_def stored fields IsStringSlicesDifferent_def)
  have again: "authorizeHandler env' False s =
          pendingWorkflow env' ar' (GetClientID ar') s
            (GetRequiredLevel env' (policySubject env' s) (policyObject ar'))
            True (policyCalls env' ar' s) \<and>
        filter isNewAuthorizeResponse (events (authorizeHandler env' False s)) = []"
    if n: "GetRequestedScopes ar' \<noteq> [] \<and> NewAuthorizeRequest env' = (ar', None) \<and>
      getOIDCClientConfig (GetClientID ar') (Clients env') = Some clientConfig'"
  proof -
    from n have m: "isConsentMissing ar' s"
      by (simp add: missing)
    from n m have r: "authorizeHandler env' False s =
          pendingWorkflow env' ar' (GetClientID ar') s
            (GetRequiredLevel env' (policySubject env' s) (policyObject ar'))
            True (policyCalls env' ar' s)"
      using handler_pending [of env' ar' clientConfig' s] by simp
    show ?thesis
      unfolding r by (simp add: pending_builds_nothing policyCalls_selectors)
  qed
  from stored have wf: "OIDCWorkflowSession s = Some w"
    by simp
  from missing have missing': "GetRequestedScopes ar' \<noteq> [] \<longrightarrow> isConsentMissing ar' s"
    by blast
  from again have again': "GetRequestedScopes ar' \<noteq> [] \<and> NewAuthorizeRequest env' = (ar', None) \<and>
      getOIDCClientConfig (GetClientID ar') (Clients env') = Some clientConfig' \<longrightarrow>
        authorizeHandler env' False s =
          pendingWorkflow env' ar' (GetClientID ar') s
            (GetRequiredLevel env' (policySubject env' s) (policyObject ar'))
            True (policyCalls env' ar' s) \<and>
        filter isNewAuthorizeResponse (events (authorizeHandler env' False s)) = []"
    by blast
  from wf fields missing' again'
  show "OIDCWorkflowSession (session (authorizeHandler env False store)) =
       Some (installedWorkflow (GetClientID ar) ar forwardedURI
         (GetRequiredLevel env (policySubject env store) (policyObject ar))) \<and>
     GrantedScopes (installedWorkflow (GetClientID ar) ar forwardedURI
         (GetRequiredLevel env (policySubject env store) (policyObject ar))) = [] \<and>
     ClientID (installedWorkflow (GetClientID ar) ar forwardedURI
         (GetRequiredLevel env (policySubject env store) (policyObject ar))) = GetClientID ar \<and>
     RequestedScopes (installedWorkflow (GetClientID ar) ar forwardedURI
         (GetRequiredLevel env (policySubject env store) (policyObject ar))) =
       GetRequestedScopes ar \<and>
     (GetRequestedScopes ar' \<noteq> [] \<longrightarrow>
        isConsentMissing ar' (session (authorizeHandler env False store))) \<and>
     (GetRequestedScopes ar' \<noteq> [] \<and> NewAuthorizeRequest env' = (ar', None) \<and>
      getOIDCClientConfig (GetClientID ar') (Clients env') = Some clientConfig' \<longrightarrow>
        authorizeHandler env' False (session (authorizeHandler env False store)) =
          pendingWorkflow env' ar' (GetClientID ar') (session (authorizeHandler env False store))
            (GetRequiredLevel env'
               (policySubject env' (session (authorizeHandler env False store)))
               (policyObject ar'))
            True (policyCalls env' ar' (session (authorizeHandler env False store))) \<and>
        filter isNewAuthorizeResponse
          (events (authorizeHandler env' False (session (authorizeHandler env False store)))) = [])"
    unfolding s_def [symmetric] w_def [symmetric] by blast
qed

theorem installed_workflow_grants_nothing_witness:
  "isConsentMissing exampleRequest freshSession \<and>
   GetOriginalURL exampleEnv = Inr ''https://auth.example.com/api/oidc/authorize'' \<and>
   GetRequestedScopes exampleRequest \<noteq> [] \<and>
   OIDCWorkflowSession (session (authorizeHandler exampleEnv False freshSession)) =
     Some (installedWorkflow (GetClientID exampleRequest) exampleRequest
       ''https://auth.example.com/api/oidc/authorize''
       (GetRequiredLevel exampleEnv (policySubject exampleEnv freshSession)
          (policyObject exampleRequest))) \<and>
   isConsentMissing exampleRequest (session (authorizeHandler exampleEnv False freshSession)) \<and>
   filter isNewAuthorizeResponse (events (authorizeHandler exampleEnv False
     (session (authorizeHandler exampleEnv False freshSession)))) = []"
proof -
  have u: "GetOriginalURL exampleEnv = Inr ''https://auth.example.com/api/oidc/authorize''"
    and s: "SaveSessionError exampleEnv (pendingSession exampleEnv exampleRequest
        freshSession ''https://auth.example.com/api/oidc/authorize'') = None"
    by (simp_all add: exampleEnv_def)
  have n: "GetRequestedScopes exampleRequest \<noteq> []"
    by (simp add: exampleRequest_def)
  from installed_workflow_grants_nothing [where env = exampleEnv and ar = exampleRequest
      and clientConfig = exampleClient and store = freshSession
      and forwardedURI = "''https://auth.example.com/api/oidc/authorize''"
      and ar' = exampleRequest and env' = exampleEnv and clientConfig' = exampleClient]
    example_parse example_client example_consent_missing u s n
  show ?thesis by blast
qed

lemma consent_workflow_client:
  "isConsentMissing ar (userSession\<lparr>OIDCWorkflowSession := Some (w\<lparr>ClientID := c\<rparr>)\<rparr>) =
   isConsentMissing ar (userSession\<lparr>OIDCWorkflowSession := Some w\<rparr>)"
  by (simp add: isConsentMissing_def)

lemma auth_workflow:
  "isAuthInsufficient env ar (store\<lparr>OIDCWorkflowSession := x\<rparr>) = isAuthInsufficient env ar store \<and>
   policyCalls env ar (store\<lparr>OIDCWorkflowSession := x\<rparr>) = policyCalls env ar store \<and>
   policySubject env (store\<lparr>OIDCWorkflowSession := x\<rparr>) = policySubject env store"
  by (simp add: isAuthInsufficient_def policyCalls_def policySubject_def)

lemma pending_ignores_workflow:
  "events (pendingWorkflow env ar clientID (store\<lparr>OIDCWorkflowSession := x\<rparr>) lvl m evs) =
     events (pendingWorkflow env ar clientID (store\<lparr>OIDCWorkflowSession := y\<rparr>) lvl m evs) \<and>
   request (pendingWorkflow env ar clientID (store\<lparr>OIDCWorkflowSession := x\<rparr>) lvl m evs) =
     request (pendingWorkflow env ar clientID (store\<lparr>OIDCWorkflowSession := y\<rparr>) lvl m evs)"
  by (simp add: pendingWorkflow_def Let_def split: option.splits sum.splits)

lemma finalize_workflows:
  "events (finalize env ar (store\<lparr>OIDCWorkflowSession := x\<rparr>) evs) =
     events (finalize env ar (store\<lparr>OIDCWorkflowSession := y\<rparr>) evs) \<and>
   request (finalize env ar (store\<lparr>OIDCWorkflowSession := x\<rparr>) evs) =
     request (finalize env ar (store\<lparr>OIDCWorkflowSession := y\<rparr>) evs)"
  by (simp add: finalize_alt split: option.splits sum.splits)

lemma get_outcomes:
  "authorizeHandler env False store =
     (case NewAuthorizeRequest env of
        (ar, Some e) \<Rightarrow> \<lparr>session = store, events = [EvWriteAuthorizeError ar e], request = ar\<rparr>
      | (ar, None) \<Rightarrow>
          (case getOIDCClientConfig (GetClientID ar) (Clients env) of
             None \<Rightarrow>
               \<lparr>session = store,
                events = [EvWriteAuthorizeError ar
                  (''Unable to find related client configuration with name '' @ GetID ar)],
                request = ar\<rparr>
           | Some clientConfig \<Rightarrow>
               (if isAuthInsufficient env ar store \<or> isConsentMissing ar store
                then pendingWorkflow env ar (GetClientID ar) store
                       (GetRequiredLevel env (policySubject env store) (policyObject ar))
                       (isConsentMissing ar store) (policyCalls env ar store)
                else finalize env ar store (policyCalls env ar store))))"
  by (simp add: authorizeHandler_def Let_def policyCalls_def split: prod.splits option.splits)

text \<open>
  Claim C1, as the code has it. The consent decision reads the requested scopes and the
  granted scopes of whatever workflow the session holds; the workflow's client ID is never
  read. Changing the client ID of the stored workflow changes neither the decision nor
  the calls of a navigation invocation nor the request object it leaves, and a workflow
  whose granted scopes equal the requested scopes as sets satisfies the consent check
  whatever client it was stored for.
\<close>

theorem consent_ignores_workflow_client:
  "isConsentMissing ar (store\<lparr>OIDCWorkflowSession := Some (w\<lparr>ClientID := c\<rparr>)\<rparr>) =
     isConsentMissing ar (store\<lparr>OIDCWorkflowSession := Some w\<rparr>) \<and>
   events (authorizeHandler env False (store\<lparr>OIDCWorkflowSession := Some (w\<lparr>ClientID := c\<rparr>)\<rparr>)) =
     events (authorizeHandler env False (store\<lparr>OIDCWorkflowSession := Some w\<rparr>)) \<and>
   request (authorizeHandler env False (store\<lparr>OIDCWorkflowSession := Some (w\<lparr>ClientID := c\<rparr>)\<rparr>)) =
     request (authorizeHandler env False (store\<lparr>OIDCWorkflowSession := Some w\<rparr>)) \<and>
   (GetRequestedScopes ar \<noteq> [] \<and> set (GetRequestedScopes ar) = set (GrantedScopes w) \<longrightarrow>
      \<not> isConsentMissing ar (store\<lparr>OIDCWorkflowSession := Some (w\<lparr>ClientID := c\<rparr>)\<rparr>))"
proof (intro conjI impI)
  show "isConsentMissing ar (store\<lparr>OIDCWorkflowSession := Some (w\<lparr>ClientID := c\<rparr>)\<rparr>) =
     isConsentMissing ar (store\<lparr>OIDCWorkflowSession := Some w\<rparr>)"
    by (rule consent_workflow_client)
  have same: "events (authorizeHandler env False (store\<lparr>OIDCWorkflowSession := Some (w\<lparr>ClientID := c\<rparr>)\<rparr>)) =
     events (authorizeHandler env False (store\<lparr>OIDCWorkflowSession := Some w\<rparr>)) \<and>
   request (authorizeHandler env False (store\<lparr>OIDCWorkflowSession := Some (w\<lparr>ClientID := c\<rparr>)\<rparr>)) =
     request (authorizeHandler env False (store\<lparr>OIDCWorkflowSession := Some w\<rparr>))"
  proof -
    let ?a = "store\<lparr>OIDCWorkflowSession := Some (w\<lparr>ClientID := c\<rparr>)\<rparr>"
    let ?b = "store\<lparr>OIDCWorkflowSession := Some w\<rparr>"
    obtain ar' perr where p: "NewAuthorizeRequest env = (ar', perr)"
      by (cases "NewAuthorizeRequest env")
    have dec: "isConsentMissing ar' ?a = isConsentMissing ar' ?b \<and>
        isAuthInsufficient env ar' ?a = isAuthInsufficient env ar' ?b \<and>
        policyCalls env ar' ?a = policyCalls env ar' ?b \<and>
        policySubject env ?a = policySubject env ?b"
      by (simp add: auth_workflow consent_workflow_client)
    show ?thesis
    proof (cases perr)
      case (Some e)
      with p show ?thesis by (simp add: get_outcomes)
    next
      case None
      note parse = p [unfolded None]
      show ?thesis
      proof (cases "getOIDCClientConfig (GetClientID ar') (Clients env)")
        case None
        with parse show ?thesis by (simp add: get_outcomes)
      next
        case (Some cc)
        show ?thesis
        proof (cases "isAuthInsufficient env ar' ?b \<or> isConsentMissing ar' ?b")
          case True
          with parse Some dec
            pending_ignores_workflow [where env = env and ar = ar' and store = store
              and x = "Some (w\<lparr>ClientID := c\<rparr>)" and y = "Some w"]
          show ?thesis by (simp add: get_outcomes)
        next
          case False
          with parse Some dec
            finalize_workflows [where env = env and ar = ar' and store = store
              and x = "Some (w\<lparr>ClientID := c\<rparr>)" and y = "Some w"]
          show ?thesis by (simp add: get_outcomes)
        qed
      qed
    qed
  qed
  from same show "events (authorizeHandler env False (store\<lparr>OIDCWorkflowSession := Some (w\<lparr>ClientID := c\<rparr>)\<rparr>)) =
     events (authorizeHandler env False (store\<lparr>OIDCWorkflowSession := Some w\<rparr>))"
    by simp
  from same show "request (authorizeHandler env False (store\<lparr>OIDCWorkflowSession := Some (w\<lparr>ClientID := c\<rparr>)\<rparr>)) =
     request (authorizeHandler env False (store\<lparr>OIDCWorkflowSession := Some w\<rparr>))"
    by simp
next
  assume "GetRequestedScopes ar \<noteq> [] \<and> set (GetRequestedScopes ar) = set (GrantedScopes w)"
  then show "\<not> isConsentMissing ar (store\<lparr>OIDCWorkflowSession := Some (w\<lparr>ClientID := c\<rparr>)\<rparr>)"
    by (simp add: isConsentMissing_def IsStringSlicesDifferent_set)
qed


lemma otherClient_facts:
  "otherClientSession = freshSession\<lparr>OIDCWorkflowSession := Some (grantedWorkflow\<lparr>ClientID := ''other''\<rparr>)\<rparr> \<and>
   grantedSession = freshSession\<lparr>OIDCWorkflowSession := Some grantedWorkflow\<rparr> \<and>
   otherClientSession\<lparr>OIDCWorkflowSession := None\<rparr> = freshSession \<and>
   OIDCWorkflowSession otherClientSession = Some (grantedWorkflow\<lparr>ClientID := ''other''\<rparr>) \<and>
   ClientID (grantedWorkflow\<lparr>ClientID := ''other''\<rparr>) \<noteq> GetClientID exampleRequest \<and>
   GetRequestedScopes exampleRequest \<noteq> [] \<and>
   set (GetRequestedScopes exampleRequest) = set (GrantedScopes grantedWorkflow) \<and>
   \<not> isAuthInsufficient exampleEnv ar otherClientSession"
  by (auto simp add: otherClientSession_def grantedSession_def freshSession_def
      grantedWorkflow_def exampleRequest_def isAuthInsufficient_def exampleEnv_def)

theorem consent_ignores_workflow_client_witness:
  "GetRequestedScopes exampleRequest \<noteq> [] \<and>
   set (GetRequestedScopes exampleRequest) = set (GrantedScopes grantedWorkflow) \<and>
   \<not> isConsentMissing exampleRequest otherClientSession \<and>
   events (authorizeHandler exampleEnv False otherClientSession) =
     events (authorizeHandler exampleEnv False grantedSession)"
proof -
  note t = consent_ignores_workflow_client [where ar = exampleRequest and store = freshSession
      and w = grantedWorkflow and c = "''other''" and env = exampleEnv]
  from otherClient_facts have o: "otherClientSession =
      freshSession\<lparr>OIDCWorkflowSession := Some (grantedWorkflow\<lparr>ClientID := ''other''\<rparr>)\<rparr>"
    and g: "grantedSession = freshSession\<lparr>OIDCWorkflowSession := Some grantedWorkflow\<rparr>"
    and n: "GetRequestedScopes exampleRequest \<noteq> []"
    and e: "set (GetRequestedScopes exampleRequest) = set (GrantedScopes grantedWorkflow)"
    by blast+
  from t n e show ?thesis
    unfolding o g by blast
qed

theorem other_client_workflow_counterexample:
  "OIDCWorkflowSession otherClientSession = Some (grantedWorkflow\<lparr>ClientID := ''other''\<rparr>) \<and>
   ClientID (grantedWorkflow\<lparr>ClientID := ''other''\<rparr>) \<noteq> GetClientID exampleRequest \<and>
   otherClientSession\<lparr>OIDCWorkflowSession := None\<rparr> = freshSession \<and>
   \<not> isConsentMissing exampleRequest otherClientSession \<and>
   isConsentMissing exampleRequest freshSession \<and>
   last (events (authorizeHandler exampleEnv False otherClientSession)) =
     EvWriteAuthorizeResponse (grantRequested exampleRequest) ''code'' \<and>
   last (events (authorizeHandler exampleEnv False freshSession)) =
     EvRedirect ''https://auth.example.com/consent'' 302"
proof -
  have c: "\<not> isConsentMissing exampleRequest otherClientSession"
    by (simp add: isConsentMissing_def IsStringSlicesDifferent_def otherClientSession_def
        freshSession_def grantedWorkflow_def exampleRequest_def)
  have a: "\<not> isAuthInsufficient exampleEnv exampleRequest otherClientSession"
    using otherClient_facts by blast
  have r1: "authorizeHandler exampleEnv False otherClientSession =
      finalize exampleEnv exampleRequest otherClientSession
        (policyCalls exampleEnv exampleRequest otherClientSession)"
    by (rule handler_satisfied [OF example_parse example_client a c])
  have sv: "SaveSessionError exampleEnv (otherClientSession\<lparr>OIDCWorkflowSession := None\<rparr>) = None"
    by (simp add: exampleEnv_def)
  have l1: "last (events (authorizeHandler exampleEnv False otherClientSession)) =
     EvWriteAuthorizeResponse (grantRequested exampleRequest) ''code''"
    unfolding r1
    using finalize_save_ok [OF sv, of exampleRequest
        "policyCalls exampleEnv exampleRequest otherClientSession"]
    by (auto simp add: exampleEnv_def)
  have m: "isAuthInsufficient exampleEnv exampleRequest freshSession \<or>
      isConsentMissing exampleRequest freshSession"
    using example_consent_missing by simp
  have r2: "authorizeHandler exampleEnv False freshSession =
      pendingWorkflow exampleEnv exampleRequest (GetClientID exampleRequest) freshSession
        (GetRequiredLevel exampleEnv (policySubject exampleEnv freshSession)
           (policyObject exampleRequest))
        (isConsentMissing exampleRequest freshSession)
        (policyCalls exampleEnv exampleRequest freshSession)"
    by (rule handler_pending [OF example_parse example_client m])
  have l2: "last (events (authorizeHandler exampleEnv False freshSession)) =
     EvRedirect ''https://auth.example.com/consent'' 302"
    unfolding r2
    using pending_redirect [where env = exampleEnv and userSession = freshSession
        and ar = exampleRequest and clientID = "GetClientID exampleRequest"
        and forwardedURI = "''https://auth.example.com/api/oidc/authorize''"
        and uri = "''https://auth.example.com''"
        and consentMissing = "isConsentMissing exampleRequest freshSession"
        and evs = "policyCalls exampleEnv exampleRequest freshSession"
        and lvl = "GetRequiredLevel exampleEnv (policySubject exampleEnv freshSession)
           (policyObject exampleRequest)"]
      example_consent_missing
    by (simp add: exampleEnv_def)
  from otherClient_facts c example_consent_missing l1 l2 show ?thesis
    by blast
qed

end
